theory Spec2Isabelle
  imports Complex_Main "HOL-Library.Sublist"
begin

section \<open>The JavaScript values the gas checker handles\<close>

text \<open>
  The route handler works on parsed JSON. A Number is an IEEE-754 double: it is kept as
  the exact rational it denotes, or one of the three special values. The two zeros are
  one value here: the program never divides by a total and every rendering it uses
  (\<open>toString\<close>, \<open>toFixed\<close>) prints both zeros alike. Strings are ASCII character lists.
  Field values are the JSON scalars; a field that is absent reads as \<open>Undefined\<close>.
\<close>

datatype number = NaN | PosInf | NegInf | Fin rat

datatype jsval = Undefined | Null | Bool bool | Num number | Str string

datatype error =
    TransportError string
  | TypeError string
  | RangeError string
  | SyntaxError string
  | NumericFault string

fun message :: "error \<Rightarrow> string" where
  "message (TransportError m) = m"
| "message (TypeError m) = m"
| "message (RangeError m) = m"
| "message (SyntaxError m) = m"
| "message (NumericFault m) = m"

text \<open>ToBoolean: what \<open>if (v)\<close>, \<open>!v\<close> and \<open>a || b\<close> test.\<close>

fun truthy :: "jsval \<Rightarrow> bool" where
  "truthy Undefined = False"
| "truthy Null = False"
| "truthy (Bool b) = b"
| "truthy (Num n) = (n \<noteq> NaN \<and> n \<noteq> Fin 0)"
| "truthy (Str s) = (s \<noteq> [])"

definition js_or :: "jsval \<Rightarrow> jsval \<Rightarrow> jsval" where
  "js_or a b = (if truthy a then a else b)"

subsection \<open>Rounding to a double, and double arithmetic\<close>

definition pow2 :: "int \<Rightarrow> rat" where
  "pow2 e = (if 0 \<le> e then 2 ^ nat e else 1 / 2 ^ nat (- e))"

definition pow10 :: "int \<Rightarrow> rat" where
  "pow10 e = (if 0 \<le> e then 10 ^ nat e else 1 / 10 ^ nat (- e))"

function bitlen :: "int \<Rightarrow> int" where
  "bitlen n = (if n \<le> 0 then 0 else 1 + bitlen (n div 2))"
  by pat_completeness auto
termination
  by (relation "measure nat") auto

declare bitlen.simps [simp del]

definition ilog2 :: "rat \<Rightarrow> int" where
  \<comment> \<open>the floor of the binary logarithm of a positive rational\<close>
  "ilog2 a =
     (let e0 = bitlen (fst (quotient_of a)) - bitlen (snd (quotient_of a))
      in if pow2 e0 \<le> a then e0 else e0 - 1)"

definition round_half_even :: "rat \<Rightarrow> int" where
  "round_half_even x =
     (let f = \<lfloor>x\<rfloor>; d = x - of_int f
      in if d < 1 / 2 then f
         else if 1 / 2 < d then f + 1
         else if even f then f else f + 1)"

definition round_double :: "rat \<Rightarrow> number" where
  \<comment> \<open>round to nearest binary64, ties to even: 53 significant bits, exponents from
     -1022 to 1023; a magnitude that rounds to \<open>2 ^ 1024\<close> or more is infinite\<close>
  "round_double r =
     (if r = 0 then Fin 0
      else
        let a = \<bar>r\<bar>; e = ilog2 a
        in if 1024 \<le> e then (if r < 0 then NegInf else PosInf)
           else
             let q = max e (- 1022) - 52;
                 m = round_half_even (a / pow2 q)
             in if e = 1023 \<and> m = 9007199254740992 then (if r < 0 then NegInf else PosInf)
                else Fin (if r < 0 then - (of_int m * pow2 q) else of_int m * pow2 q))"

fun fneg :: "number \<Rightarrow> number" where
  "fneg NaN = NaN"
| "fneg PosInf = NegInf"
| "fneg NegInf = PosInf"
| "fneg (Fin r) = Fin (- r)"

fun negative :: "number \<Rightarrow> bool" where
  "negative NegInf = True"
| "negative (Fin r) = (r < 0)"
| "negative _ = False"

definition fadd :: "number \<Rightarrow> number \<Rightarrow> number" where
  "fadd x y =
     (if x = NaN \<or> y = NaN then NaN
      else case (x, y) of
          (Fin a, Fin b) \<Rightarrow> round_double (a + b)
        | (Fin a, _) \<Rightarrow> y
        | (_, Fin b) \<Rightarrow> x
        | _ \<Rightarrow> if x = y then x else NaN)"

definition fmul :: "number \<Rightarrow> number \<Rightarrow> number" where
  "fmul x y =
     (if x = NaN \<or> y = NaN then NaN
      else case (x, y) of
          (Fin a, Fin b) \<Rightarrow> round_double (a * b)
        | _ \<Rightarrow> if x = Fin 0 \<or> y = Fin 0 then NaN
               else if negative x = negative y then PosInf else NegInf)"

subsection \<open>Digits and strings\<close>

definition is_ws :: "char \<Rightarrow> bool" where
  "is_ws c = (c = CHR '' '' \<or> c = CHR 0x09 \<or> c = CHR 0x0A \<or> c = CHR 0x0B
              \<or> c = CHR 0x0C \<or> c = CHR 0x0D)"

definition trim_start :: "string \<Rightarrow> string" where
  "trim_start s = dropWhile is_ws s"

definition trim :: "string \<Rightarrow> string" where
  "trim s = rev (dropWhile is_ws (rev (dropWhile is_ws s)))"

definition is_digit :: "char \<Rightarrow> bool" where
  "is_digit c = (48 \<le> (of_char c :: int) \<and> (of_char c :: int) \<le> 57)"

definition digit_of :: "char \<Rightarrow> int option" where
  \<comment> \<open>the value of a digit in bases up to 16\<close>
  "digit_of c =
     (let n = (of_char c :: int)
      in if 48 \<le> n \<and> n \<le> 57 then Some (n - 48)
         else if 97 \<le> n \<and> n \<le> 102 then Some (n - 87)
         else if 65 \<le> n \<and> n \<le> 70 then Some (n - 55)
         else None)"

definition digit_in :: "int \<Rightarrow> char \<Rightarrow> bool" where
  "digit_in b c = (case digit_of c of Some v \<Rightarrow> v < b | None \<Rightarrow> False)"

definition digits_val :: "int \<Rightarrow> string \<Rightarrow> int" where
  "digits_val b s = foldl (\<lambda>a c. a * b + (case digit_of c of Some v \<Rightarrow> v | None \<Rightarrow> 0)) 0 s"

definition parse_radix :: "int \<Rightarrow> string \<Rightarrow> int option" where
  "parse_radix b s = (if s \<noteq> [] \<and> list_all (digit_in b) s then Some (digits_val b s) else None)"

definition digit_char :: "int \<Rightarrow> char" where
  "digit_char n = ''0123456789'' ! nat n"

function dec :: "int \<Rightarrow> string" where
  \<comment> \<open>the decimal digits of a non-negative integer\<close>
  "dec n = (if n < 10 then [digit_char n] else dec (n div 10) @ [digit_char (n mod 10)])"
  by pat_completeness auto
termination
  by (relation "measure nat") auto

declare dec.simps [simp del]

definition pad_left :: "nat \<Rightarrow> string \<Rightarrow> string" where
  "pad_left w s = replicate (w - length s) (CHR ''0'') @ s"

subsection \<open>Reading and writing a BigInt\<close>

definition radix_prefix :: "string \<Rightarrow> (int \<times> string) option" where
  "radix_prefix t =
     (case t of
        c1 # c2 # rest \<Rightarrow>
          if c1 \<noteq> CHR ''0'' then None
          else if c2 = CHR ''x'' \<or> c2 = CHR ''X'' then Some (16, rest)
          else if c2 = CHR ''o'' \<or> c2 = CHR ''O'' then Some (8, rest)
          else if c2 = CHR ''b'' \<or> c2 = CHR ''B'' then Some (2, rest)
          else None
      | _ \<Rightarrow> None)"

definition StringToBigInt :: "string \<Rightarrow> int option" where
  "StringToBigInt s =
     (let t = trim s
      in if t = [] then Some 0
         else case radix_prefix t of
             Some (b, rest) \<Rightarrow> parse_radix b rest
           | None \<Rightarrow>
               (case t of
                  c # ds \<Rightarrow>
                    if c = CHR ''-'' then map_option uminus (parse_radix 10 ds)
                    else if c = CHR ''+'' then parse_radix 10 ds
                    else parse_radix 10 t
                | [] \<Rightarrow> Some 0))"

definition bigint_toString :: "int \<Rightarrow> string" where
  "bigint_toString n = (if n < 0 then ''-'' @ dec (- n) else dec n)"

subsection \<open>Reading a Number from a string\<close>

definition starts_with :: "string \<Rightarrow> string \<Rightarrow> bool" where
  "starts_with p s = (take (length p) s = p)"

definition scan_exponent :: "string \<Rightarrow> int \<times> string" where
  \<comment> \<open>an exponent part, if one is there: its value and what follows it\<close>
  "scan_exponent s =
     (case s of
        c # r \<Rightarrow>
          if c = CHR ''e'' \<or> c = CHR ''E'' then
            (let neg = starts_with ''-'' r;
                 r' = (if starts_with ''-'' r \<or> starts_with ''+'' r then drop 1 r else r);
                 ds = takeWhile is_digit r'
             in if ds = [] then (0, s)
                else ((if neg then - digits_val 10 ds else digits_val 10 ds),
                      dropWhile is_digit r'))
          else (0, s)
      | [] \<Rightarrow> (0, s))"

definition scan_unsigned_decimal :: "string \<Rightarrow> (number \<times> string) option" where
  \<comment> \<open>the longest prefix that is a StrUnsignedDecimalLiteral: its value and the rest\<close>
  "scan_unsigned_decimal s =
     (if starts_with ''Infinity'' s then Some (PosInf, drop 8 s)
      else
        let ip = takeWhile is_digit s;
            r1 = dropWhile is_digit s;
            fp = (if starts_with ''.'' r1 then takeWhile is_digit (drop 1 r1) else []);
            dot = (starts_with ''.'' r1 \<and> (ip \<noteq> [] \<or> fp \<noteq> []));
            r2 = (if dot then dropWhile is_digit (drop 1 r1) else r1)
        in if ip = [] \<and> \<not> dot then None
           else
             let (ex, r3) = scan_exponent r2
             in Some (round_double
                        (of_int (digits_val 10 (ip @ (if dot then fp else [])))
                           * pow10 (ex - (if dot then int (length fp) else 0))), r3))"

definition scan_decimal :: "string \<Rightarrow> (number \<times> string) option" where
  "scan_decimal s =
     (if starts_with ''-'' s then map_option (\<lambda>(v, r). (fneg v, r)) (scan_unsigned_decimal (drop 1 s))
      else if starts_with ''+'' s then scan_unsigned_decimal (drop 1 s)
      else scan_unsigned_decimal s)"

fun parseFloat :: "jsval \<Rightarrow> number" where
  "parseFloat (Str s) = (case scan_decimal (trim_start s) of Some (v, r) \<Rightarrow> v | None \<Rightarrow> NaN)"
| "parseFloat (Num n) = n"
| "parseFloat v = NaN"

declare parseFloat.simps [simp del]

definition StringToNumber :: "string \<Rightarrow> number" where
  "StringToNumber s =
     (let t = trim s
      in if t = [] then Fin 0
         else case radix_prefix t of
             Some (b, rest) \<Rightarrow>
               (case parse_radix b rest of Some n \<Rightarrow> round_double (of_int n) | None \<Rightarrow> NaN)
           | None \<Rightarrow>
               (case scan_decimal t of
                  Some (v, r) \<Rightarrow> if r = [] then v else NaN
                | None \<Rightarrow> NaN))"

fun ToNumber :: "jsval \<Rightarrow> number" where
  "ToNumber Undefined = NaN"
| "ToNumber Null = Fin 0"
| "ToNumber (Bool b) = Fin (if b then 1 else 0)"
| "ToNumber (Num n) = n"
| "ToNumber (Str s) = StringToNumber s"

declare ToNumber.simps [simp del]

subsection \<open>Writing a Number: \<open>toString\<close> and \<open>toFixed(2)\<close>\<close>

definition ilog10 :: "rat \<Rightarrow> int" where
  \<comment> \<open>the floor of the decimal logarithm of a positive rational\<close>
  "ilog10 a =
     (let e0 = int (length (dec (fst (quotient_of a)))) - int (length (dec (snd (quotient_of a))))
      in if pow10 e0 \<le> a then e0 else e0 - 1)"

definition denotes :: "int \<Rightarrow> int \<times> int \<Rightarrow> rat" where
  \<comment> \<open>the value of the \<open>k\<close> digits \<open>s\<close> with the decimal point after the \<open>n\<close>-th\<close>
  "denotes k c = of_int (fst c) * pow10 (snd c - k)"

definition digit_candidates :: "rat \<Rightarrow> int \<Rightarrow> int \<Rightarrow> (int \<times> int) list" where
  \<comment> \<open>the two \<open>k\<close>-digit decimals around \<open>a\<close>, where \<open>10 ^ (n0 - 1) \<le> a < 10 ^ n0\<close>\<close>
  "digit_candidates a n0 k =
     (let lo = \<lfloor>a / pow10 (n0 - k)\<rfloor>
      in [(lo, n0), (if lo + 1 = 10 ^ nat k then (10 ^ nat (k - 1), n0 + 1) else (lo + 1, n0))])"

function shortest_digits :: "rat \<Rightarrow> int \<Rightarrow> int \<Rightarrow> int \<times> int \<times> int" where
  \<comment> \<open>\<open>(n, k, s)\<close> of Number::toString: the fewest digits that read back as \<open>a\<close>\<close>
  "shortest_digits a n0 k =
     (case filter (\<lambda>c. round_double (denotes k c) = Fin a) (digit_candidates a n0 k) of
        [] \<Rightarrow> if 17 \<le> k then (n0, k, \<lfloor>a / pow10 (n0 - k)\<rfloor>) else shortest_digits a n0 (k + 1)
      | [c] \<Rightarrow> (snd c, k, fst c)
      | c1 # c2 # cs \<Rightarrow>
          if \<bar>denotes k c1 - a\<bar> < \<bar>denotes k c2 - a\<bar>
             \<or> (\<bar>denotes k c1 - a\<bar> = \<bar>denotes k c2 - a\<bar> \<and> even (fst c1))
          then (snd c1, k, fst c1) else (snd c2, k, fst c2))"
  by pat_completeness auto
termination
  by (relation "measure (\<lambda>(a, n0, k). nat (17 - k))") auto

declare shortest_digits.simps [simp del]

definition positive_toString :: "rat \<Rightarrow> string" where
  "positive_toString a =
     (let (n, k, s) = shortest_digits a (ilog10 a + 1) 1; ds = dec s
      in if k \<le> n \<and> n \<le> 21 then ds @ replicate (nat (n - k)) (CHR ''0'')
         else if 0 < n \<and> n \<le> 21 then take (nat n) ds @ ''.'' @ drop (nat n) ds
         else if - 6 < n \<and> n \<le> 0 then ''0.'' @ replicate (nat (- n)) (CHR ''0'') @ ds
         else
           let es = (if n - 1 < 0 then ''-'' else ''+'') @ dec \<bar>n - 1\<bar>
           in if k = 1 then ds @ ''e'' @ es
              else take 1 ds @ ''.'' @ drop 1 ds @ ''e'' @ es)"

fun number_toString :: "number \<Rightarrow> string" where
  "number_toString NaN = ''NaN''"
| "number_toString PosInf = ''Infinity''"
| "number_toString NegInf = ''-Infinity''"
| "number_toString (Fin r) =
     (if r = 0 then ''0''
      else if r < 0 then ''-'' @ positive_toString (- r)
      else positive_toString r)"

declare number_toString.simps [simp del]

definition toFixed2 :: "number \<Rightarrow> string" where
  \<comment> \<open>\<open>x.toFixed(2)\<close>\<close>
  "toFixed2 x =
     (case x of
        Fin r \<Rightarrow>
          (let sg = (if r < 0 then ''-'' else [])
           in if 10 ^ 21 \<le> \<bar>r\<bar> then sg @ number_toString (Fin \<bar>r\<bar>)
              else
                let m = pad_left 3 (dec \<lfloor>\<bar>r\<bar> * 100 + 1 / 2\<rfloor>)
                in sg @ take (length m - 2) m @ ''.'' @ drop (length m - 2) m)
      | _ \<Rightarrow> number_toString x)"

subsection \<open>Converting a value to a BigInt\<close>

fun BigInt :: "jsval \<Rightarrow> error + int" where
  "BigInt Undefined = Inl (TypeError ''Cannot convert undefined to a BigInt'')"
| "BigInt Null = Inl (TypeError ''Cannot convert null to a BigInt'')"
| "BigInt (Bool b) = Inr (if b then 1 else 0)"
| "BigInt (Num n) =
     (case n of
        Fin r \<Rightarrow>
          if of_int \<lfloor>r\<rfloor> = r then Inr \<lfloor>r\<rfloor>
          else Inl (RangeError (''The number '' @ number_toString n
                 @ '' cannot be converted to a BigInt because it is not an integer''))
      | _ \<Rightarrow> Inl (RangeError (''The number '' @ number_toString n
                 @ '' cannot be converted to a BigInt because it is not an integer'')))"
| "BigInt (Str s) =
     (case StringToBigInt s of
        Some n \<Rightarrow> Inr n
      | None \<Rightarrow> Inl (SyntaxError (''Cannot convert '' @ s @ '' to a BigInt'')))"

declare BigInt.simps [simp del]

subsection \<open>Dates\<close>

definition TimeClip :: "number \<Rightarrow> int option" where
  \<comment> \<open>the time value of \<open>new Date(t)\<close>; \<open>None\<close> is the invalid date\<close>
  "TimeClip t =
     (case t of
        Fin r \<Rightarrow>
          if 8640000000000000 < \<bar>r\<bar> then None
          else Some (if r < 0 then - \<lfloor>- r\<rfloor> else \<lfloor>r\<rfloor>)
      | _ \<Rightarrow> None)"

definition civil_from_days :: "int \<Rightarrow> int \<times> int \<times> int" where
  \<comment> \<open>year, month and day of the month of a day number counted from 1970-01-01\<close>
  "civil_from_days z0 =
     (let z = z0 + 719468;
          era = z div 146097;
          doe = z mod 146097;
          yoe = (doe - doe div 1460 + doe div 36524 - doe div 146096) div 365;
          doy = doe - (365 * yoe + yoe div 4 - yoe div 100);
          mp = (5 * doy + 2) div 153;
          d = doy - (153 * mp + 2) div 5 + 1;
          m = (if mp < 10 then mp + 3 else mp - 9)
      in ((if m \<le> 2 then yoe + era * 400 + 1 else yoe + era * 400), m, d))"

definition toISOString :: "int option \<Rightarrow> error + string" where
  "toISOString tv =
     (case tv of
        None \<Rightarrow> Inl (RangeError ''Invalid time value'')
      | Some t \<Rightarrow>
          (let (y, m, d) = civil_from_days (t div 86400000);
               ms = t mod 86400000;
               year = (if 0 \<le> y \<and> y \<le> 9999 then pad_left 4 (dec y)
                       else (if y < 0 then ''-'' else ''+'') @ pad_left 6 (dec \<bar>y\<bar>))
           in Inr (year @ ''-'' @ pad_left 2 (dec m) @ ''-'' @ pad_left 2 (dec d) @ ''T''
                   @ pad_left 2 (dec (ms div 3600000)) @ '':''
                   @ pad_left 2 (dec (ms div 60000 mod 60)) @ '':''
                   @ pad_left 2 (dec (ms div 1000 mod 60)) @ ''.''
                   @ pad_left 3 (dec (ms mod 1000)) @ ''Z'')))"

subsection \<open>ethers: \<open>formatEther\<close>\<close>

text \<open>
  \<open>formatEther\<close> of ethers 6 writes wei as a decimal string of ether, through a signed
  fixed-point number of 512 bits: a value outside that range is a numeric fault.
\<close>

definition ether_string :: "int \<Rightarrow> string" where
  \<comment> \<open>18 fractional digits, trailing zeros cut, one kept\<close>
  "ether_string w =
     (let a = \<bar>w\<bar>;
          frac = rev (dropWhile (\<lambda>c. c = CHR ''0'') (rev (pad_left 18 (dec (a mod 10 ^ 18)))))
      in (if w < 0 then ''-'' else []) @ dec (a div 10 ^ 18) @ ''.''
         @ (if frac = [] then ''0'' else frac))"

definition FIXED_LIMIT :: int where
  \<comment> \<open>\<open>2 ^ 511\<close>\<close>
  "FIXED_LIMIT = 6703903964971298549787012499102923063739682910296196688861780721860882015036773488400937149083451713845015929093243025426876941405973284973216824503042048"

definition formatEther :: "int \<Rightarrow> error + string" where
  "formatEther w =
     (if w < - FIXED_LIMIT \<or> FIXED_LIMIT \<le> w then Inl (NumericFault ''overflow'')
      else Inr (ether_string w))"

section \<open>The upstream providers\<close>

text \<open>
  A transaction record as the history endpoint returns it; the program reads these six keys.
\<close>

record tx =
  hash :: jsval
  gasUsed :: jsval
  gas :: jsval
  effectiveGasPrice :: jsval
  gasPrice :: jsval
  blockTimestamp :: jsval

text \<open>
  \<open>response.data\<close> of the history endpoint. \<open>transactions\<close> is \<open>None\<close> when the key is
  absent or holds no array. An element of the array is an object, read through the six
  keys, or \<open>null\<close>, which is \<open>None\<close>; an element that is a number, a string or a boolean
  reads like an object with none of the keys. The route exists in two listings that differ in the cursor
  they follow: the first reads \<open>before\<close> and sends it back as \<open>before\<close>, the second
  does the same with \<open>after\<close>.
\<close>

record page =
  transactions :: "tx option list option"
  before :: jsval
  after :: jsval

datatype cursor_key = Before | After

fun page_cursor :: "cursor_key \<Rightarrow> page \<Rightarrow> jsval" where
  "page_cursor Before p = before p"
| "page_cursor After p = after p"

text \<open>The bodies of the two POST requests. A key that is not set reads \<open>Undefined\<close>.\<close>

record history_data =
  address :: string
  networks :: "string list"
  limit :: nat
  data_before :: jsval
  data_after :: jsval

record price_body =
  symbol :: string
  startTime :: string
  endTime :: string
  interval :: string

datatype request = HistoryRequest history_data | PriceRequest price_body

text \<open>
  One price point of \<open>response.data.data\<close>; the program reads its \<open>value\<close> key. In the
  array a \<open>null\<close> element is \<open>None\<close>, and an element that is a number, a string or a
  boolean reads like a point without the key.
\<close>

record price_point =
  point_value :: jsval

text \<open>
  The world a request runs in: what the two endpoints will answer, in the order of the
  calls, and the requests sent so far. An answer is a rejection of \<open>axios.post\<close>
  (\<open>Inl\<close>) or \<open>response.data\<close> (\<open>Inr\<close>); for the price endpoint \<open>None\<close> stands for a
  \<open>response.data\<close> whose \<open>data\<close> key holds no array. A call that finds no answer left
  never returns: the run hangs, which is the result \<open>None\<close> of every operation below.
  What the program writes to the console is left out.
\<close>

record world =
  history_responses :: "(error + page) list"
  price_responses :: "(error + price_point option list option) list"
  sent :: "request list"

definition post_history :: "history_data \<Rightarrow> world \<Rightarrow> ((error + page) \<times> world) option" where
  "post_history d w =
     (case history_responses w of
        [] \<Rightarrow> None
      | r # rs \<Rightarrow> Some (r, w\<lparr>history_responses := rs, sent := sent w @ [HistoryRequest d]\<rparr>))"

definition post_price ::
  "price_body \<Rightarrow> world \<Rightarrow> ((error + price_point option list option) \<times> world) option" where
  "post_price b w =
     (case price_responses w of
        [] \<Rightarrow> None
      | r # rs \<Rightarrow> Some (r, w\<lparr>price_responses := rs, sent := sent w @ [PriceRequest b]\<rparr>))"

section \<open>The history fetcher\<close>

definition NETWORK :: string where
  "NETWORK = ''eth-mainnet''"

definition history_request :: "cursor_key \<Rightarrow> string \<Rightarrow> jsval \<Rightarrow> history_data" where
  \<comment> \<open>the body built at the top of the loop; the cursor key is set only for a truthy cursor\<close>
  "history_request k addr cursor =
     \<lparr>address = addr, networks = [NETWORK], limit = 50,
      data_before = (if k = Before \<and> truthy cursor then cursor else Undefined),
      data_after = (if k = After \<and> truthy cursor then cursor else Undefined)\<rparr>"

text \<open>
  The \<open>while (hasMore)\<close> loop, on its three variables. A rejected request is logged and
  thrown again.
\<close>

function fetch_loop ::
  "cursor_key \<Rightarrow> string \<Rightarrow> tx option list \<Rightarrow> bool \<Rightarrow> jsval \<Rightarrow> world
     \<Rightarrow> ((error + tx option list) \<times> world) option" where
  "fetch_loop k addr fetched hasMore cursor w =
     (if \<not> hasMore then Some (Inr fetched, w)
      else
        case post_history (history_request k addr cursor) w of
          None \<Rightarrow> None
        | Some (Inl e, w') \<Rightarrow> Some (Inl e, w')
        | Some (Inr p, w') \<Rightarrow>
            (case transactions p of
               Some txs \<Rightarrow>
                 if txs \<noteq> [] then
                   if truthy (page_cursor k p)
                   then fetch_loop k addr (fetched @ txs) True (page_cursor k p) w'
                   else fetch_loop k addr (fetched @ txs) False cursor w'
                 else fetch_loop k addr fetched False cursor w'
             | None \<Rightarrow> fetch_loop k addr fetched False cursor w'))"
  by pat_completeness auto
termination
  by (relation "measure (\<lambda>(k, addr, fetched, hasMore, cursor, w).
        2 * length (history_responses w) + (if hasMore then 1 else 0))")
     (auto simp: post_history_def split: list.splits)

declare fetch_loop.simps [simp del]

definition fetchTransactionHistory ::
  "cursor_key \<Rightarrow> string \<Rightarrow> world \<Rightarrow> ((error + tx option list) \<times> world) option" where
  "fetchTransactionHistory k addr w = fetch_loop k addr [] True Undefined w"

section \<open>The price resolver\<close>

definition fetchHistoricalETHPrice ::
  "jsval \<Rightarrow> world \<Rightarrow> ((error + number option) \<times> world) option" where
  \<comment> \<open>the price, \<open>None\<close> for the \<open>null\<close> of "not found", or the error thrown: by
      \<open>toISOString\<close>, by the request (logged and thrown again), or by reading \<open>value\<close> of a
      \<open>null\<close> point (the same)\<close>
  "fetchHistoricalETHPrice timestamp w =
     (let startDate = TimeClip (ToNumber timestamp);
          endDate = TimeClip (fadd (ToNumber timestamp) (Fin 3600000))
      in case toISOString startDate of
           Inl e \<Rightarrow> Some (Inl e, w)
         | Inr startISO \<Rightarrow>
             (case toISOString endDate of
                Inl e \<Rightarrow> Some (Inl e, w)
              | Inr endISO \<Rightarrow>
                  (case post_price
                          \<lparr>symbol = ''ETH'', startTime = startISO, endTime = endISO,
                           interval = ''1h''\<rparr> w of
                     None \<Rightarrow> None
                   | Some (Inl e, w') \<Rightarrow> Some (Inl e, w')
                   | Some (Inr d, w') \<Rightarrow>
                       (case d of
                          Some (priceObj # rest) \<Rightarrow>
                            (case priceObj of
                               None \<Rightarrow>
                                 Some (Inl (TypeError
                                   ''Cannot read properties of null (reading 'value')''), w')
                             | Some point \<Rightarrow>
                                 Some (Inr (Some (parseFloat (point_value point))), w'))
                        | _ \<Rightarrow> Some (Inr None, w')))))"

section \<open>The gas cost aggregator\<close>

record tx_cost =
  cost_hash :: jsval
  timestamp :: jsval
  costETH :: number
  costUSD :: number

text \<open>The variables of \<open>calculateTotalGasCost\<close> that the loop over the transactions updates.\<close>

record totals =
  totalGasCostWei :: int
  totalGasCostETH :: number
  totalGasCostUSD :: number
  txCosts :: "tx_cost list"
  lastValidPrice :: "number option"

text \<open>
  The \<open>try\<close> block of the loop body, for a transaction that has passed the two checks
  before it. It ends by \<open>continue\<close> (the totals as they were), by falling through (the
  totals updated), or by a throw, of \<open>BigInt\<close>, of \<open>formatEther\<close> or of the price resolver.
\<close>

definition try_block ::
  "tx \<Rightarrow> jsval \<Rightarrow> jsval \<Rightarrow> totals \<Rightarrow> world \<Rightarrow> ((error + totals) \<times> world) option" where
  "try_block t gasUsedValue gasPriceValue s w =
     (case BigInt gasUsedValue of
        Inl e \<Rightarrow> Some (Inl e, w)
      | Inr gasUsedBig \<Rightarrow>
          (case BigInt gasPriceValue of
             Inl e \<Rightarrow> Some (Inl e, w)
           | Inr gasPriceBig \<Rightarrow>
               (let txCostWei = gasUsedBig * gasPriceBig
                in case formatEther txCostWei of
                     Inl e \<Rightarrow> Some (Inl e, w)
                   | Inr ether \<Rightarrow>
                       (let txCostETH = parseFloat (Str ether)
                        in if \<not> truthy (blockTimestamp t) then Some (Inr s, w)
                           else
                             case fetchHistoricalETHPrice (blockTimestamp t) w of
                               None \<Rightarrow> None
                             | Some (Inl e, w') \<Rightarrow> Some (Inl e, w')
                             | Some (Inr found, w') \<Rightarrow>
                                 (case (case found of
                                          None \<Rightarrow> lastValidPrice s
                                        | Some price \<Rightarrow> Some price) of
                                    None \<Rightarrow> Some (Inr s, w')
                                  | Some histPriceUSD \<Rightarrow>
                                      (let txCostUSD = fmul txCostETH histPriceUSD
                                       in Some (Inr
                                            \<lparr>totalGasCostWei = totalGasCostWei s + txCostWei,
                                             totalGasCostETH = fadd (totalGasCostETH s) txCostETH,
                                             totalGasCostUSD = fadd (totalGasCostUSD s) txCostUSD,
                                             txCosts = txCosts s @
                                               [\<lparr>cost_hash = hash t,
                                                 timestamp = blockTimestamp t,
                                                 costETH = txCostETH, costUSD = txCostUSD\<rparr>],
                                             lastValidPrice =
                                               (case found of
                                                  None \<Rightarrow> lastValidPrice s
                                                | Some price \<Rightarrow> Some price)\<rparr>, w')))))))"

text \<open>
  One turn of the \<open>for\<close> loop. The two quantities are read before the \<open>try\<close>: reading
  \<open>gasUsed\<close> of a \<open>null\<close> element throws, and nothing catches it. The \<open>catch\<close> of the loop
  logs an error thrown inside the \<open>try\<close> and goes on to the next transaction; nothing was
  assigned before the throw.
\<close>

definition loop_body ::
  "tx option \<Rightarrow> totals \<Rightarrow> world \<Rightarrow> ((error + totals) \<times> world) option" where
  "loop_body element s w =
     (case element of
        None \<Rightarrow> Some (Inl (TypeError ''Cannot read properties of null (reading 'gasUsed')''), w)
      | Some t \<Rightarrow>
          let gasUsedValue = js_or (gasUsed t) (gas t)
          in if \<not> truthy gasUsedValue then Some (Inr s, w)
             else
               let gasPriceValue = js_or (effectiveGasPrice t) (gasPrice t)
               in if \<not> truthy gasPriceValue then Some (Inr s, w)
                  else
                    case try_block t gasUsedValue gasPriceValue s w of
                      None \<Rightarrow> None
                    | Some (Inl e, w') \<Rightarrow> Some (Inr s, w')
                    | Some (Inr s', w') \<Rightarrow> Some (Inr s', w'))"

text \<open>The \<open>for\<close> loop: an error that leaves a turn ends the loop and the call.\<close>

fun for_loop ::
  "tx option list \<Rightarrow> totals \<Rightarrow> world \<Rightarrow> ((error + totals) \<times> world) option" where
  "for_loop [] s w = Some (Inr s, w)"
| "for_loop (element # rest) s w =
     (case loop_body element s w of
        None \<Rightarrow> None
      | Some (Inl e, w') \<Rightarrow> Some (Inl e, w')
      | Some (Inr s', w') \<Rightarrow> for_loop rest s' w')"

definition initial_totals :: totals where
  "initial_totals =
     \<lparr>totalGasCostWei = 0, totalGasCostETH = Fin 0, totalGasCostUSD = Fin 0,
      txCosts = [], lastValidPrice = None\<rparr>"

text \<open>The object returned; its keys carry the suffix \<open>_out\<close> where a variable has the name.\<close>

record aggregate_result =
  totalGasCostWei_out :: string
  totalGasCostETH_out :: string
  totalGasCostUSD_out :: string
  transactionCosts :: "tx_cost list"

definition result_of :: "totals \<Rightarrow> aggregate_result" where
  "result_of s =
     \<lparr>totalGasCostWei_out = bigint_toString (totalGasCostWei s),
      totalGasCostETH_out = number_toString (totalGasCostETH s),
      totalGasCostUSD_out = toFixed2 (totalGasCostUSD s),
      transactionCosts = txCosts s\<rparr>"

definition calculateTotalGasCost ::
  "cursor_key \<Rightarrow> string \<Rightarrow> world \<Rightarrow> ((error + aggregate_result) \<times> world) option" where
  "calculateTotalGasCost k addr w =
     (case fetchTransactionHistory k addr w of
        None \<Rightarrow> None
      | Some (Inl e, w') \<Rightarrow> Some (Inl e, w')
      | Some (Inr txs, w') \<Rightarrow>
          (case for_loop txs initial_totals w' of
             None \<Rightarrow> None
           | Some (Inl e, w'') \<Rightarrow> Some (Inl e, w'')
           | Some (Inr s, w'') \<Rightarrow> Some (Inr (result_of s), w'')))"

section \<open>The route handler\<close>

text \<open>
  \<open>GET\<close> receives what \<open>searchParams.get('address')\<close> gives for the request (\<open>None\<close> for
  \<open>null\<close>) and answers with a status and the object it serialises as the body.
\<close>

datatype body = ErrorBody string | ResultBody aggregate_result

record response =
  status :: nat
  body :: body

definition GET :: "cursor_key \<Rightarrow> string option \<Rightarrow> world \<Rightarrow> (response \<times> world) option" where
  "GET k addr w =
     (case addr of
        None \<Rightarrow> Some (\<lparr>status = 400, body = ErrorBody ''Missing address parameter''\<rparr>, w)
      | Some a \<Rightarrow>
          if a = [] then Some (\<lparr>status = 400, body = ErrorBody ''Missing address parameter''\<rparr>, w)
          else
            case calculateTotalGasCost k a w of
              None \<Rightarrow> None
            | Some (Inl e, w') \<Rightarrow> Some (\<lparr>status = 500, body = ErrorBody (message e)\<rparr>, w')
            | Some (Inr r, w') \<Rightarrow> Some (\<lparr>status = 200, body = ResultBody r\<rparr>, w'))"

section \<open>Notions the statements use\<close>

text \<open>
  A page lets the fetcher go on when it holds a non-empty array of transactions and a
  truthy cursor; \<open>page_txs\<close> is what a page adds to the result.
\<close>

definition continues :: "cursor_key \<Rightarrow> page \<Rightarrow> bool" where
  "continues k p =
     ((case transactions p of Some txs \<Rightarrow> txs \<noteq> [] | None \<Rightarrow> False) \<and> truthy (page_cursor k p))"

definition page_txs :: "page \<Rightarrow> tx option list" where
  "page_txs p = (case transactions p of Some txs \<Rightarrow> txs | None \<Rightarrow> [])"

text \<open>
  The requests for a run of pages: the first carries no cursor, each later one the
  cursor of the page before it.
\<close>

definition requests_for :: "cursor_key \<Rightarrow> string \<Rightarrow> page list \<Rightarrow> request list" where
  "requests_for k addr ps =
     map (\<lambda>c. HistoryRequest (history_request k addr c)) (Undefined # map (page_cursor k) ps)"

definition request_cursor :: "cursor_key \<Rightarrow> history_data \<Rightarrow> jsval" where
  "request_cursor k d = (case k of Before \<Rightarrow> data_before d | After \<Rightarrow> data_after d)"

text \<open>The two quantities of a transaction, and its cost in wei when both convert.\<close>

definition gasUsedValue :: "tx \<Rightarrow> jsval" where
  "gasUsedValue t = js_or (gasUsed t) (gas t)"

definition gasPriceValue :: "tx \<Rightarrow> jsval" where
  "gasPriceValue t = js_or (effectiveGasPrice t) (gasPrice t)"

definition txCostWei :: "tx \<Rightarrow> int" where
  "txCostWei t =
     (case BigInt (gasUsedValue t) of
        Inl e \<Rightarrow> 0
      | Inr g \<Rightarrow> (case BigInt (gasPriceValue t) of Inl e \<Rightarrow> 0 | Inr p \<Rightarrow> g * p))"

definition txCostETH :: "tx \<Rightarrow> number" where
  "txCostETH t = parseFloat (Str (ether_string (txCostWei t)))"

text \<open>
  What the price resolver makes of the answer to its request: it throws, it returns "not
  found", or it returns a price.
\<close>

datatype lookup = Rejected error | NotFound | Found number

definition outcome_of :: "error + price_point option list option \<Rightarrow> lookup" where
  "outcome_of answer =
     (case answer of
        Inl e \<Rightarrow> Rejected e
      | Inr None \<Rightarrow> NotFound
      | Inr (Some []) \<Rightarrow> NotFound
      | Inr (Some (None # rest)) \<Rightarrow>
          Rejected (TypeError ''Cannot read properties of null (reading 'value')'')
      | Inr (Some (Some point # rest)) \<Rightarrow> Found (parseFloat (point_value point)))"

text \<open>
  A transaction reaches the price lookup, and a request is sent for it, when its two
  quantities are truthy and convert to BigInt, their product is in the range
  \<open>formatEther\<close> takes, its timestamp is truthy and both ends of the hour that starts at
  the timestamp are valid dates. Every other transaction is skipped before a request is
  made.
\<close>

definition succeeds :: "error + 'a \<Rightarrow> bool" where
  "succeeds x = (case x of Inl e \<Rightarrow> False | Inr y \<Rightarrow> True)"

definition reaches_lookup :: "tx \<Rightarrow> bool" where
  "reaches_lookup t =
     (truthy (gasUsedValue t) \<and> truthy (gasPriceValue t)
      \<and> succeeds (BigInt (gasUsedValue t)) \<and> succeeds (BigInt (gasPriceValue t))
      \<and> - FIXED_LIMIT \<le> txCostWei t \<and> txCostWei t < FIXED_LIMIT
      \<and> truthy (blockTimestamp t)
      \<and> succeeds (toISOString (TimeClip (ToNumber (blockTimestamp t))))
      \<and> succeeds (toISOString (TimeClip (fadd (ToNumber (blockTimestamp t)) (Fin 3600000)))))"

text \<open>
  The lookups of a run over a batch of transactions: the transactions that reach the
  lookup, in order, the first with what the resolver makes of the first answer of the
  price provider, the second with the second, and so on.
\<close>

definition lookups ::
  "tx list \<Rightarrow> (error + price_point option list option) list \<Rightarrow> (tx \<times> lookup) list" where
  "lookups txs answers = zip (filter reaches_lookup txs) (map outcome_of answers)"

text \<open>
  The last price found among lookups, if any; and the price a transaction is processed
  at, given the lookups made before it in the run and its own: the price found, or on
  "not found" the last price found before. With no price the transaction is skipped.
\<close>

definition found_prices :: "lookup list \<Rightarrow> number list" where
  "found_prices ls = concat (map (\<lambda>l. case l of Found x \<Rightarrow> [x] | _ \<Rightarrow> []) ls)"

definition last_found :: "lookup list \<Rightarrow> number option" where
  "last_found ls = (if found_prices ls = [] then None else Some (last (found_prices ls)))"

definition price_for :: "lookup list \<Rightarrow> lookup \<Rightarrow> number option" where
  "price_for earlier l =
     (case l of Found x \<Rightarrow> Some x | NotFound \<Rightarrow> last_found earlier | Rejected e \<Rightarrow> None)"

text \<open>
  The transactions that are processed, each with its price, among lookups that follow the
  lookups \<open>earlier\<close>; and the processed transactions of a whole run.
\<close>

fun processed_after :: "lookup list \<Rightarrow> (tx \<times> lookup) list \<Rightarrow> (tx \<times> number) list" where
  "processed_after earlier [] = []"
| "processed_after earlier ((t, l) # rest) =
     (case price_for earlier l of None \<Rightarrow> [] | Some x \<Rightarrow> [(t, x)])
     @ processed_after (earlier @ [l]) rest"

definition processed ::
  "tx list \<Rightarrow> (error + price_point option list option) list \<Rightarrow> (tx \<times> number) list" where
  "processed txs answers = processed_after [] (lookups txs answers)"

text \<open>
  The entry of \<open>transactionCosts\<close> for a transaction processed at a price, and the result
  for a sequence of processed transactions: the wei costs summed as integers, the ether
  and dollar costs summed as doubles from \<open>0\<close> in the order of the sequence.
\<close>

definition entry_of :: "tx \<times> number \<Rightarrow> tx_cost" where
  "entry_of = (\<lambda>(t, x).
     \<lparr>cost_hash = hash t, timestamp = blockTimestamp t,
      costETH = txCostETH t, costUSD = fmul (txCostETH t) x\<rparr>)"

definition wei_sum :: "(tx \<times> number) list \<Rightarrow> int" where
  "wei_sum P = sum_list (map (\<lambda>(t, x). txCostWei t) P)"

definition aggregate :: "(tx \<times> number) list \<Rightarrow> aggregate_result" where
  "aggregate P =
     \<lparr>totalGasCostWei_out = bigint_toString (wei_sum P),
      totalGasCostETH_out = number_toString (foldl fadd (Fin 0) (map (\<lambda>(t, x). txCostETH t) P)),
      totalGasCostUSD_out =
        toFixed2 (foldl fadd (Fin 0) (map (\<lambda>(t, x). fmul (txCostETH t) x) P)),
      transactionCosts = map entry_of P\<rparr>"

text \<open>A transaction with every falsy field taken away.\<close>

definition absent_if_falsy :: "jsval \<Rightarrow> jsval" where
  "absent_if_falsy v = (if truthy v then v else Undefined)"

definition without_falsy :: "tx \<Rightarrow> tx" where
  "without_falsy t =
     \<lparr>hash = hash t,
      gasUsed = absent_if_falsy (gasUsed t),
      gas = absent_if_falsy (gas t),
      effectiveGasPrice = absent_if_falsy (effectiveGasPrice t),
      gasPrice = absent_if_falsy (gasPrice t),
      blockTimestamp = absent_if_falsy (blockTimestamp t)\<rparr>"

text \<open>A decimal string with exactly two digits after the point, as \<open>12.30\<close> or \<open>-0.05\<close>.\<close>

definition unsigned_two_fraction_digits :: "string \<Rightarrow> bool" where
  "unsigned_two_fraction_digits u =
     (4 \<le> length u \<and> u ! (length u - 3) = CHR ''.''
      \<and> list_all is_digit (take (length u - 3) u) \<and> list_all is_digit (drop (length u - 2) u))"

definition two_fraction_digits :: "string \<Rightarrow> bool" where
  "two_fraction_digits s =
     unsigned_two_fraction_digits (if starts_with ''-'' s then drop 1 s else s)"

text \<open>
  Two worlds hold the same answers when the two providers will answer alike in both; the
  requests already sent may differ. Two outcomes agree when both hang, or both return
  the same value and leave worlds that hold the same answers.
\<close>

definition same_answers :: "world \<Rightarrow> world \<Rightarrow> bool" where
  "same_answers v w =
     (history_responses v = history_responses w \<and> price_responses v = price_responses w)"

definition agree :: "('a \<times> world) option \<Rightarrow> ('a \<times> world) option \<Rightarrow> bool" where
  "agree x y =
     (case x of
        None \<Rightarrow> y = None
      | Some (r, v) \<Rightarrow> (case y of None \<Rightarrow> False | Some (r', w) \<Rightarrow> r = r' \<and> same_answers v w))"

section \<open>Sample inputs\<close>

definition tx_a :: tx where
  "tx_a = \<lparr>hash = Str ''0xa'', gasUsed = Str ''1000000000'', gas = Undefined,
           effectiveGasPrice = Str ''1000000000'', gasPrice = Undefined,
           blockTimestamp = Str ''1700000000000''\<rparr>"

definition tx_b :: tx where
  "tx_b = \<lparr>hash = Str ''0xb'', gasUsed = Undefined, gas = Num (Fin 500000),
           effectiveGasPrice = Undefined, gasPrice = Str ''0xe8d4a51000'',
           blockTimestamp = Num (Fin 1700003600000)\<rparr>"

definition tx_no_gas :: tx where
  "tx_no_gas = \<lparr>hash = Str ''0xc'', gasUsed = Undefined, gas = Undefined,
                effectiveGasPrice = Str ''1000000000'', gasPrice = Undefined,
                blockTimestamp = Str ''1700000000000''\<rparr>"

definition tx_zero_gas :: tx where
  "tx_zero_gas = \<lparr>hash = Str ''0xd'', gasUsed = Num (Fin 0), gas = Str [],
                  effectiveGasPrice = Str ''1000000000'', gasPrice = Undefined,
                  blockTimestamp = Str ''1700000000000''\<rparr>"

definition tx_big :: tx where
  "tx_big = \<lparr>hash = Str ''0xe'', gasUsed = Str ''9007199254740993'', gas = Undefined,
             effectiveGasPrice = Str ''9007199254740993'', gasPrice = Undefined,
             blockTimestamp = Str ''1700000000000''\<rparr>"

definition tx_huge :: tx where
  "tx_huge = \<lparr>hash = Str ''0xf'', gasUsed = Str ''10000000000000000000000000000000'',
              gas = Undefined, effectiveGasPrice = Str ''1000000000'', gasPrice = Undefined,
              blockTimestamp = Str ''1700000000000''\<rparr>"

definition tx_later :: tx where
  "tx_later = \<lparr>hash = Str ''0x10'', gasUsed = Str ''2000000000'', gas = Undefined,
               effectiveGasPrice = Str ''1000000000'', gasPrice = Undefined,
               blockTimestamp = Num (Fin 1700007200000)\<rparr>"

definition numbered :: "nat \<Rightarrow> nat \<Rightarrow> tx option list" where
  \<comment> \<open>\<open>n\<close> transactions that differ in their hash, numbered from \<open>i\<close>\<close>
  "numbered i n = map (\<lambda>j. Some (tx_a\<lparr>hash := Num (Fin (of_nat j))\<rparr>)) [i..<i + n]"

definition page1 :: page where
  "page1 = \<lparr>transactions = Some (numbered 0 50), before = Str ''c1'', after = Undefined\<rparr>"

definition page2 :: page where
  "page2 = \<lparr>transactions = Some (numbered 50 50), before = Str ''c2'', after = Undefined\<rparr>"

definition page3 :: page where
  "page3 = \<lparr>transactions = Some (numbered 100 10), before = Undefined, after = Undefined\<rparr>"

definition one_page :: "tx list \<Rightarrow> error + page" where
  "one_page txs = Inr \<lparr>transactions = Some (map Some txs), before = Undefined, after = Undefined\<rparr>"

definition price :: "string \<Rightarrow> error + price_point option list option" where
  "price v = Inr (Some [Some \<lparr>point_value = Str v\<rparr>])"

definition not_found :: "error + price_point option list option" where
  "not_found = Inr (Some [])"

definition network_error :: error where
  "network_error = TransportError ''Network Error''"

definition world_of ::
  "(error + page) list \<Rightarrow> (error + price_point option list option) list \<Rightarrow> world" where
  "world_of hs ps = \<lparr>history_responses = hs, price_responses = ps, sent = []\<rparr>"

section \<open>Facts about the loop over the transactions\<close>

lemma loop_body_null:
  "loop_body None s w =
     Some (Inl (TypeError ''Cannot read properties of null (reading 'gasUsed')''), w)"
  by (simp add: loop_body_def)

lemma loop_body_falsy:
  assumes "\<not> truthy (gasUsedValue t) \<or> \<not> truthy (gasPriceValue t) \<or> \<not> truthy (blockTimestamp t)"
  shows "loop_body (Some t) s w = Some (Inr s, w)"
  using assms
  by (auto simp: loop_body_def try_block_def gasUsedValue_def gasPriceValue_def Let_def
           split: sum.splits)

lemma for_loop_append:
  "for_loop (xs @ ys) s w =
     (case for_loop xs s w of
        None \<Rightarrow> None
      | Some (Inl e, w') \<Rightarrow> Some (Inl e, w')
      | Some (Inr s', w') \<Rightarrow> for_loop ys s' w')"
  by (induction xs arbitrary: s w) (auto split: option.splits sum.splits)

lemma for_loop_skip:
  assumes "\<And>s w. loop_body t s w = Some (Inr s, w)"
  shows "for_loop (pre @ t # post) s w = for_loop (pre @ post) s w"
  by (simp add: for_loop_append assms split: option.splits sum.splits)

lemma try_block_reads:
  assumes "hash t = hash t'" and "blockTimestamp t = blockTimestamp t'"
  shows "try_block t g p s w = try_block t' g p s w"
  unfolding try_block_def assms by (rule refl)

lemma without_falsy_sel:
  "hash (without_falsy t) = hash t"
  "gasUsed (without_falsy t) = absent_if_falsy (gasUsed t)"
  "gas (without_falsy t) = absent_if_falsy (gas t)"
  "effectiveGasPrice (without_falsy t) = absent_if_falsy (effectiveGasPrice t)"
  "gasPrice (without_falsy t) = absent_if_falsy (gasPrice t)"
  "blockTimestamp (without_falsy t) = absent_if_falsy (blockTimestamp t)"
  by (simp_all add: without_falsy_def)

lemma js_or_absent_if_falsy:
  "truthy (js_or a b) \<Longrightarrow> js_or (absent_if_falsy a) (absent_if_falsy b) = js_or a b"
  "truthy (js_or (absent_if_falsy a) (absent_if_falsy b)) = truthy (js_or a b)"
  "truthy (absent_if_falsy a) = truthy a"
  by (auto simp: js_or_def absent_if_falsy_def)

lemma loop_body_without_falsy: "loop_body (Some (without_falsy t)) s w = loop_body (Some t) s w"
proof (cases "truthy (gasUsedValue t) \<and> truthy (gasPriceValue t) \<and> truthy (blockTimestamp t)")
  case True
  then have eqs:
    "js_or (absent_if_falsy (gasUsed t)) (absent_if_falsy (gas t)) = js_or (gasUsed t) (gas t)"
    "js_or (absent_if_falsy (effectiveGasPrice t)) (absent_if_falsy (gasPrice t))
       = js_or (effectiveGasPrice t) (gasPrice t)"
    "absent_if_falsy (blockTimestamp t) = blockTimestamp t"
    by (auto simp: gasUsedValue_def gasPriceValue_def absent_if_falsy_def js_or_def)
  have "try_block (without_falsy t) g p s w = try_block t g p s w" for g p
    by (rule try_block_reads) (simp_all add: without_falsy_sel eqs)
  then show ?thesis
    by (simp add: loop_body_def without_falsy_sel eqs Let_def)
next
  case False
  then have "\<not> truthy (gasUsedValue (without_falsy t)) \<or> \<not> truthy (gasPriceValue (without_falsy t))
      \<or> \<not> truthy (blockTimestamp (without_falsy t))"
    by (simp add: gasUsedValue_def gasPriceValue_def without_falsy_sel js_or_absent_if_falsy)
  with False show ?thesis
    by (simp add: loop_body_falsy)
qed

section \<open>The route handler rejects a request without an address\<close>

text \<open>
  C9. When the \<open>address\<close> parameter is missing (\<open>null\<close>) or empty, \<open>GET\<close> answers with
  status 400 and the body \<open>{"error": "Missing address parameter"}\<close>, and the world is as
  it was: no request has been sent and no answer of either provider has been used.
\<close>

theorem missing_address_400:
  assumes "addr = None \<or> addr = Some []"
  shows "GET k addr w = Some (\<lparr>status = 400, body = ErrorBody ''Missing address parameter''\<rparr>, w)"
  using assms by (auto simp: GET_def)

theorem missing_address_400_witness:
  "GET Before (Some []) (world_of [] []) =
     Some (\<lparr>status = 400, body = ErrorBody ''Missing address parameter''\<rparr>, world_of [] [])
   \<and> GET After None (world_of [one_page [tx_a]] [price ''2000'']) =
     Some (\<lparr>status = 400, body = ErrorBody ''Missing address parameter''\<rparr>,
           world_of [one_page [tx_a]] [price ''2000''])
   \<and> sent (world_of [one_page [tx_a]] [price ''2000'']) = []"
  using missing_address_400 [of "Some []" Before "world_of [] []"]
    missing_address_400 [of None After "world_of [one_page [tx_a]] [price ''2000'']"]
  by (simp add: world_of_def)

section \<open>The price lookup inside the loop\<close>

lemma lookup_answer:
  assumes "toISOString (TimeClip (ToNumber ts)) = Inr a"
    and "toISOString (TimeClip (fadd (ToNumber ts) (Fin 3600000))) = Inr b"
    and "price_responses w = r # rest"
  shows "fetchHistoricalETHPrice ts w =
           Some (case outcome_of r of
                   Rejected e \<Rightarrow> Inl e
                 | NotFound \<Rightarrow> Inr None
                 | Found x \<Rightarrow> Inr (Some x),
                 w\<lparr>price_responses := rest,
                   sent := sent w @ [PriceRequest \<lparr>symbol = ''ETH'', startTime = a, endTime = b,
                                                  interval = ''1h''\<rparr>]\<rparr>)"
  using assms
  by (simp add: fetchHistoricalETHPrice_def post_price_def outcome_of_def Let_def
           split: sum.splits option.splits list.splits)

lemma lookup_no_date:
  assumes "\<not> succeeds (toISOString (TimeClip (ToNumber ts)))
           \<or> \<not> succeeds (toISOString (TimeClip (fadd (ToNumber ts) (Fin 3600000))))"
  shows "\<exists>e. fetchHistoricalETHPrice ts w = Some (Inl e, w)"
  using assms
  by (auto simp: fetchHistoricalETHPrice_def succeeds_def Let_def split: sum.splits)

lemma sample_values:
  "BigInt (Str ''1000000000'') = Inr 1000000000"
  "BigInt (Str ''0xe8d4a51000'') = Inr 1000000000000"
  "BigInt (Num (Fin 500000)) = Inr 500000"
  "BigInt (Str ''9007199254740993'') = Inr 9007199254740993"
  "BigInt (Str ''10000000000000000000000000000000'') = Inr 10000000000000000000000000000000"
  by code_simp+

lemma sample_dates:
  "toISOString (TimeClip (ToNumber (Str ''1700000000000''))) = Inr ''2023-11-14T22:13:20.000Z''"
  "toISOString (TimeClip (fadd (ToNumber (Str ''1700000000000'')) (Fin 3600000)))
     = Inr ''2023-11-14T23:13:20.000Z''"
  "toISOString (TimeClip (ToNumber (Num (Fin 1700003600000)))) = Inr ''2023-11-14T23:13:20.000Z''"
  "toISOString (TimeClip (fadd (ToNumber (Num (Fin 1700003600000))) (Fin 3600000)))
     = Inr ''2023-11-15T00:13:20.000Z''"
  by code_simp+

lemma sample_ether:
  "formatEther 1000000000000000000 = Inr (ether_string 1000000000000000000)"
  "formatEther 500000000000000000 = Inr (ether_string 500000000000000000)"
  "parseFloat (Str (ether_string 1000000000000000000)) = Fin 1"
  "parseFloat (Str (ether_string 500000000000000000)) = Fin (1 / 2)"
  "parseFloat (Str ''2000'') = Fin 2000"
  "fmul (Fin 1) (Fin 2000) = Fin 2000"
  "fmul (Fin (1 / 2)) (Fin 2000) = Fin 1000"
  "fadd (Fin 0) (Fin 1) = Fin 1"
  "fadd (Fin 0) (Fin 2000) = Fin 2000"
  "fadd (Fin 0) (Fin (1 / 2)) = Fin (1 / 2)"
  "fadd (Fin 0) (Fin 1000) = Fin 1000"
  "fadd (Fin 1) (Fin (1 / 2)) = Fin (3 / 2)"
  "fadd (Fin 2000) (Fin 1000) = Fin 3000"
  by code_simp+

lemma sample_range:
  "- FIXED_LIMIT \<le> 1000000000 * 1000000000" "1000000000 * 1000000000 < FIXED_LIMIT"
  "- FIXED_LIMIT \<le> 500000 * 1000000000000" "500000 * 1000000000000 < FIXED_LIMIT"
  "- FIXED_LIMIT \<le> 9007199254740993 * 9007199254740993"
  "9007199254740993 * 9007199254740993 < FIXED_LIMIT"
  by (simp_all add: FIXED_LIMIT_def)

lemma try_block_lookup:
  assumes "BigInt gu = Inr g" and "BigInt gp = Inr p" and "truthy (blockTimestamp t)"
    and "- FIXED_LIMIT \<le> g * p" and "g * p < FIXED_LIMIT"
  shows "try_block t gu gp s w =
           (case fetchHistoricalETHPrice (blockTimestamp t) w of
              None \<Rightarrow> None
            | Some (Inl e, w') \<Rightarrow> Some (Inl e, w')
            | Some (Inr found, w') \<Rightarrow>
                (case (case found of None \<Rightarrow> lastValidPrice s | Some x \<Rightarrow> Some x) of
                   None \<Rightarrow> Some (Inr s, w')
                 | Some x \<Rightarrow>
                     Some (Inr
                       \<lparr>totalGasCostWei = totalGasCostWei s + g * p,
                        totalGasCostETH =
                          fadd (totalGasCostETH s) (parseFloat (Str (ether_string (g * p)))),
                        totalGasCostUSD =
                          fadd (totalGasCostUSD s) (fmul (parseFloat (Str (ether_string (g * p)))) x),
                        txCosts = txCosts s @
                          [\<lparr>cost_hash = hash t, timestamp = blockTimestamp t,
                            costETH = parseFloat (Str (ether_string (g * p))),
                            costUSD = fmul (parseFloat (Str (ether_string (g * p)))) x\<rparr>],
                        lastValidPrice =
                          (case found of None \<Rightarrow> lastValidPrice s | Some x \<Rightarrow> Some x)\<rparr>, w')))"
  using assms
  by (auto simp: try_block_def formatEther_def Let_def split: option.splits sum.splits prod.splits)

lemma txCostWei_converted:
  assumes "BigInt (gasUsedValue t) = Inr g" and "BigInt (gasPriceValue t) = Inr p"
  shows "txCostWei t = g * p" and "txCostETH t = parseFloat (Str (ether_string (g * p)))"
  using assms by (simp_all add: txCostWei_def txCostETH_def)

lemma loop_body_try:
  assumes "truthy (gasUsedValue t)" and "truthy (gasPriceValue t)"
  shows "loop_body (Some t) s w =
           (case try_block t (gasUsedValue t) (gasPriceValue t) s w of
              None \<Rightarrow> None
            | Some (Inl e, w') \<Rightarrow> Some (Inr s, w')
            | Some (Inr s', w') \<Rightarrow> Some (Inr s', w'))"
  using assms by (simp add: loop_body_def gasUsedValue_def gasPriceValue_def Let_def)

lemma loop_body_resolved:
  assumes "truthy (gasUsedValue t)" and "truthy (gasPriceValue t)"
    and "BigInt (gasUsedValue t) = Inr g" and "BigInt (gasPriceValue t) = Inr p"
    and "truthy (blockTimestamp t)"
    and "- FIXED_LIMIT \<le> g * p" and "g * p < FIXED_LIMIT"
  shows "loop_body (Some t) s w =
           (case fetchHistoricalETHPrice (blockTimestamp t) w of
              None \<Rightarrow> None
            | Some (Inl e, w') \<Rightarrow> Some (Inr s, w')
            | Some (Inr found, w') \<Rightarrow>
                (case (case found of None \<Rightarrow> lastValidPrice s | Some x \<Rightarrow> Some x) of
                   None \<Rightarrow> Some (Inr s, w')
                 | Some x \<Rightarrow>
                     Some (Inr \<lparr>totalGasCostWei = totalGasCostWei s + g * p,
                        totalGasCostETH =
                          fadd (totalGasCostETH s) (parseFloat (Str (ether_string (g * p)))),
                        totalGasCostUSD =
                          fadd (totalGasCostUSD s) (fmul (parseFloat (Str (ether_string (g * p)))) x),
                        txCosts = txCosts s @
                          [\<lparr>cost_hash = hash t, timestamp = blockTimestamp t,
                            costETH = parseFloat (Str (ether_string (g * p))),
                            costUSD = fmul (parseFloat (Str (ether_string (g * p)))) x\<rparr>],
                        lastValidPrice =
                          (case found of None \<Rightarrow> lastValidPrice s | Some x \<Rightarrow> Some x)\<rparr>, w')))"
  using assms
  by (simp add: loop_body_try try_block_lookup split: option.splits sum.splits prod.splits)

lemma sample_tx_a:
  "truthy (gasUsedValue tx_a)" "truthy (gasPriceValue tx_a)" "truthy (blockTimestamp tx_a)"
  "BigInt (gasUsedValue tx_a) = Inr 1000000000" "BigInt (gasPriceValue tx_a) = Inr 1000000000"
  "blockTimestamp tx_a = Str ''1700000000000''" "hash tx_a = Str ''0xa''"
  by (simp_all add: tx_a_def gasUsedValue_def gasPriceValue_def js_or_def sample_values)

lemma sample_tx_b:
  "truthy (gasUsedValue tx_b)" "truthy (gasPriceValue tx_b)" "truthy (blockTimestamp tx_b)"
  "BigInt (gasUsedValue tx_b) = Inr 500000" "BigInt (gasPriceValue tx_b) = Inr 1000000000000"
  "blockTimestamp tx_b = Num (Fin 1700003600000)" "hash tx_b = Str ''0xb''"
  by (simp_all add: tx_b_def gasUsedValue_def gasPriceValue_def js_or_def sample_values)

lemma sample_lookup_a:
  "price_responses w = r # rest \<Longrightarrow>
   fetchHistoricalETHPrice (Str ''1700000000000'') w =
     Some (case outcome_of r of
             Rejected e \<Rightarrow> Inl e
           | NotFound \<Rightarrow> Inr None
           | Found x \<Rightarrow> Inr (Some x),
           w\<lparr>price_responses := rest,
             sent := sent w @ [PriceRequest \<lparr>symbol = ''ETH'',
                startTime = ''2023-11-14T22:13:20.000Z'', endTime = ''2023-11-14T23:13:20.000Z'',
                interval = ''1h''\<rparr>]\<rparr>)"
  by (rule lookup_answer) (simp_all add: sample_dates)

lemma sample_lookup_b:
  "price_responses w = r # rest \<Longrightarrow>
   fetchHistoricalETHPrice (Num (Fin 1700003600000)) w =
     Some (case outcome_of r of
             Rejected e \<Rightarrow> Inl e
           | NotFound \<Rightarrow> Inr None
           | Found x \<Rightarrow> Inr (Some x),
           w\<lparr>price_responses := rest,
             sent := sent w @ [PriceRequest \<lparr>symbol = ''ETH'',
                startTime = ''2023-11-14T23:13:20.000Z'', endTime = ''2023-11-15T00:13:20.000Z'',
                interval = ''1h''\<rparr>]\<rparr>)"
  by (rule lookup_answer) (simp_all add: sample_dates)

lemma sample_outcomes:
  "outcome_of (price ''2000'') = Found (Fin 2000)"
  "outcome_of not_found = NotFound"
  "outcome_of (Inl e) = Rejected e"
  by (simp_all add: outcome_of_def price_def not_found_def sample_ether)

section \<open>The run over a batch of transactions\<close>

lemma found_prices_append: "found_prices (xs @ ys) = found_prices xs @ found_prices ys"
  by (simp add: found_prices_def)

lemma found_prices_single:
  "found_prices [Found x] = [x]" "found_prices [NotFound] = []" "found_prices [Rejected e] = []"
  by (simp_all add: found_prices_def)

lemma last_found_snoc:
  "last_found [] = None"
  "last_found (ls @ [Found x]) = Some x"
  "last_found (ls @ [NotFound]) = last_found ls"
  "last_found (ls @ [Rejected e]) = last_found ls"
  by (simp_all add: last_found_def found_prices_append found_prices_single)
     (simp add: found_prices_def)

lemma price_for_same:
  "found_prices xs = found_prices ys \<Longrightarrow> price_for xs l = price_for ys l"
  by (simp add: price_for_def last_found_def split: lookup.splits)

lemma processed_after_same:
  "found_prices xs = found_prices ys \<Longrightarrow> processed_after xs L = processed_after ys L"
proof (induction L arbitrary: xs ys)
  case Nil
  then show ?case by simp
next
  case (Cons tl L)
  obtain t l where tl: "tl = (t, l)" by (cases tl)
  have "found_prices (xs @ [l]) = found_prices (ys @ [l])"
    using Cons.prems by (simp add: found_prices_append)
  then have "processed_after (xs @ [l]) L = processed_after (ys @ [l]) L"
    by (rule Cons.IH)
  then show ?case
    by (simp add: tl price_for_same [OF Cons.prems])
qed

lemma processed_after_append:
  "processed_after xs (L1 @ L2) = processed_after xs L1 @ processed_after (xs @ map snd L1) L2"
proof (induction L1 arbitrary: xs)
  case Nil
  then show ?case by simp
next
  case (Cons tl L1)
  obtain t l where tl: "tl = (t, l)" by (cases tl)
  show ?case
    by (simp add: tl Cons.IH)
qed

lemma processed_after_subset:
  "(t, x) \<in> set (processed_after xs L) \<Longrightarrow> t \<in> fst ` set L"
proof (induction L arbitrary: xs)
  case Nil
  then show ?case by simp
next
  case (Cons tl L)
  obtain t' l where tl: "tl = (t', l)" by (cases tl)
  from Cons.prems have "t = t' \<or> (t, x) \<in> set (processed_after (xs @ [l]) L)"
    by (auto simp: tl split: option.splits)
  then show ?case
  proof
    assume "t = t'"
    then show ?thesis by (simp add: tl)
  next
    assume "(t, x) \<in> set (processed_after (xs @ [l]) L)"
    then have "t \<in> fst ` set L" by (rule Cons.IH)
    then show ?thesis by simp
  qed
qed

lemma lookups_step:
  "\<not> reaches_lookup t \<Longrightarrow> lookups (t # txs) answers = lookups txs answers"
  "reaches_lookup t \<Longrightarrow> lookups (t # txs) (a # rest) = (t, outcome_of a) # lookups txs rest"
  "lookups [] answers = []"
  by (simp_all add: lookups_def)

lemma lookups_subset: "fst ` set (lookups txs answers) \<subseteq> {t \<in> set txs. reaches_lookup t}"
proof -
  have "set (lookups txs answers) \<subseteq> set (filter reaches_lookup txs) \<times> UNIV"
    by (auto simp: lookups_def dest: set_zip_leftD)
  then show ?thesis by auto
qed

lemma loop_body_skips:
  assumes "\<not> reaches_lookup t"
  shows "loop_body (Some t) s w = Some (Inr s, w)"
proof (cases "truthy (gasUsedValue t) \<and> truthy (gasPriceValue t) \<and> truthy (blockTimestamp t)")
  case False
  then show ?thesis by (intro loop_body_falsy) auto
next
  case True
  then have tr: "truthy (gasUsedValue t)" "truthy (gasPriceValue t)" "truthy (blockTimestamp t)"
    by simp_all
  show ?thesis
  proof (cases "BigInt (gasUsedValue t)")
    case (Inl e)
    then show ?thesis by (simp add: loop_body_try tr try_block_def)
  next
    case g: (Inr g)
    show ?thesis
    proof (cases "BigInt (gasPriceValue t)")
      case (Inl e)
      then show ?thesis by (simp add: loop_body_try tr try_block_def g)
    next
      case p: (Inr p)
      have wei: "txCostWei t = g * p"
        using g p by (rule txCostWei_converted)
      show ?thesis
      proof (cases "- FIXED_LIMIT \<le> g * p \<and> g * p < FIXED_LIMIT")
        case False
        then have "\<exists>e. formatEther (g * p) = Inl e"
          by (auto simp: formatEther_def)
        then show ?thesis
          by (auto simp: loop_body_try tr try_block_def g p Let_def)
      next
        case True
        with assms tr g p wei
        have "\<not> succeeds (toISOString (TimeClip (ToNumber (blockTimestamp t))))
           \<or> \<not> succeeds (toISOString (TimeClip (fadd (ToNumber (blockTimestamp t)) (Fin 3600000))))"
          by (simp add: reaches_lookup_def succeeds_def)
        then obtain e where "fetchHistoricalETHPrice (blockTimestamp t) w = Some (Inl e, w)"
          using lookup_no_date by blast
        with True show ?thesis
          by (simp add: loop_body_resolved [OF tr(1,2) g p tr(3)])
      qed
    qed
  qed
qed

lemma loop_body_lookup:
  assumes "reaches_lookup t" and "price_responses w = a # rest"
    and "lastValidPrice s = last_found earlier"
  shows "\<exists>w'. loop_body (Some t) s w =
           Some (Inr (case price_for earlier (outcome_of a) of
                        None \<Rightarrow> s
                      | Some x \<Rightarrow>
                          \<lparr>totalGasCostWei = totalGasCostWei s + txCostWei t,
                           totalGasCostETH = fadd (totalGasCostETH s) (txCostETH t),
                           totalGasCostUSD = fadd (totalGasCostUSD s) (fmul (txCostETH t) x),
                           txCosts = txCosts s @ [entry_of (t, x)],
                           lastValidPrice = last_found (earlier @ [outcome_of a])\<rparr>), w')
         \<and> price_responses w' = rest"
proof -
  from assms(1) obtain g p b c where
    tr: "truthy (gasUsedValue t)" "truthy (gasPriceValue t)" "truthy (blockTimestamp t)"
    and g: "BigInt (gasUsedValue t) = Inr g" and p: "BigInt (gasPriceValue t) = Inr p"
    and range: "- FIXED_LIMIT \<le> txCostWei t" "txCostWei t < FIXED_LIMIT"
    and dates: "toISOString (TimeClip (ToNumber (blockTimestamp t))) = Inr b"
      "toISOString (TimeClip (fadd (ToNumber (blockTimestamp t)) (Fin 3600000))) = Inr c"
    by (auto simp: reaches_lookup_def succeeds_def split: sum.splits)
  note conv = txCostWei_converted [OF g p]
  from range have r: "- FIXED_LIMIT \<le> g * p" "g * p < FIXED_LIMIT"
    by (simp_all add: conv)
  let ?w' = "w\<lparr>price_responses := rest,
               sent := sent w @ [PriceRequest \<lparr>symbol = ''ETH'', startTime = b, endTime = c,
                                              interval = ''1h''\<rparr>]\<rparr>"
  note la = lookup_answer [OF dates assms(2)]
  have "loop_body (Some t) s w =
           Some (Inr (case price_for earlier (outcome_of a) of
                        None \<Rightarrow> s
                      | Some x \<Rightarrow>
                          \<lparr>totalGasCostWei = totalGasCostWei s + txCostWei t,
                           totalGasCostETH = fadd (totalGasCostETH s) (txCostETH t),
                           totalGasCostUSD = fadd (totalGasCostUSD s) (fmul (txCostETH t) x),
                           txCosts = txCosts s @ [entry_of (t, x)],
                           lastValidPrice = last_found (earlier @ [outcome_of a])\<rparr>), ?w')"
    unfolding loop_body_resolved [OF tr(1,2) g p tr(3) r] la
    by (cases "outcome_of a")
       (simp_all add: price_for_def last_found_snoc assms(3) [symmetric] conv entry_of_def
             split: option.splits)
  then show ?thesis
    by (intro exI [of _ ?w']) simp
qed

lemma for_loop_processed:
  assumes "lastValidPrice s = last_found earlier"
    and "length (filter reaches_lookup txs) \<le> length (price_responses w)"
  shows "\<exists>w'. for_loop (map Some txs) s w =
           Some (Inr
             \<lparr>totalGasCostWei =
                totalGasCostWei s
                + wei_sum (processed_after earlier (lookups txs (price_responses w))),
              totalGasCostETH =
                foldl fadd (totalGasCostETH s)
                  (map (\<lambda>(t, x). txCostETH t)
                     (processed_after earlier (lookups txs (price_responses w)))),
              totalGasCostUSD =
                foldl fadd (totalGasCostUSD s)
                  (map (\<lambda>(t, x). fmul (txCostETH t) x)
                     (processed_after earlier (lookups txs (price_responses w)))),
              txCosts =
                txCosts s
                @ map entry_of (processed_after earlier (lookups txs (price_responses w))),
              lastValidPrice =
                last_found (earlier @ map snd (lookups txs (price_responses w)))\<rparr>, w')"
  using assms
proof (induction txs arbitrary: s w earlier)
  case Nil
  then show ?case
    by (simp add: lookups_step wei_sum_def)
next
  case (Cons t txs)
  show ?case
  proof (cases "reaches_lookup t")
    case False
    then have step: "loop_body (Some t) s w = Some (Inr s, w)"
      by (rule loop_body_skips)
    from Cons.prems False
    have "length (filter reaches_lookup txs) \<le> length (price_responses w)"
      by simp
    from Cons.IH [OF Cons.prems(1) this] show ?thesis
      by (simp add: step lookups_step False)
  next
    case True
    with Cons.prems(2) obtain a rest where
      answers: "price_responses w = a # rest"
      and enough: "length (filter reaches_lookup txs) \<le> length rest"
      by (cases "price_responses w") auto
    let ?s' = "case price_for earlier (outcome_of a) of
                 None \<Rightarrow> s
               | Some x \<Rightarrow>
                   \<lparr>totalGasCostWei = totalGasCostWei s + txCostWei t,
                    totalGasCostETH = fadd (totalGasCostETH s) (txCostETH t),
                    totalGasCostUSD = fadd (totalGasCostUSD s) (fmul (txCostETH t) x),
                    txCosts = txCosts s @ [entry_of (t, x)],
                    lastValidPrice = last_found (earlier @ [outcome_of a])\<rparr>"
    from loop_body_lookup [OF True answers Cons.prems(1)] obtain w' where
      step: "loop_body (Some t) s w = Some (Inr ?s', w')"
      and left: "price_responses w' = rest"
      by blast
    have slot: "lastValidPrice ?s' = last_found (earlier @ [outcome_of a])"
      by (cases "outcome_of a")
         (simp_all add: price_for_def last_found_snoc Cons.prems(1) split: option.splits)
    from enough left have "length (filter reaches_lookup txs) \<le> length (price_responses w')"
      by simp
    from Cons.IH [OF slot this] obtain w'' where
      run: "for_loop (map Some txs) ?s' w' =
           Some (Inr
             \<lparr>totalGasCostWei =
                totalGasCostWei ?s'
                + wei_sum (processed_after (earlier @ [outcome_of a]) (lookups txs rest)),
              totalGasCostETH =
                foldl fadd (totalGasCostETH ?s')
                  (map (\<lambda>(t, x). txCostETH t)
                     (processed_after (earlier @ [outcome_of a]) (lookups txs rest))),
              totalGasCostUSD =
                foldl fadd (totalGasCostUSD ?s')
                  (map (\<lambda>(t, x). fmul (txCostETH t) x)
                     (processed_after (earlier @ [outcome_of a]) (lookups txs rest))),
              txCosts =
                txCosts ?s'
                @ map entry_of (processed_after (earlier @ [outcome_of a]) (lookups txs rest)),
              lastValidPrice =
                last_found ((earlier @ [outcome_of a]) @ map snd (lookups txs rest))\<rparr>, w'')"
      unfolding left by blast
    show ?thesis
      by (intro exI [of _ w''])
         (simp add: step run answers lookups_step True wei_sum_def split: option.splits)
  qed
qed

lemma calculateTotalGasCost_fetched:
  assumes "fetchTransactionHistory k a v = Some (Inr txs, v')"
  shows "calculateTotalGasCost k a v =
           (case for_loop txs initial_totals v' of
              None \<Rightarrow> None
            | Some (Inl e, w) \<Rightarrow> Some (Inl e, w)
            | Some (Inr s, w) \<Rightarrow> Some (Inr (result_of s), w))"
  using assms by (simp add: calculateTotalGasCost_def)

lemma calculateTotalGasCost_processed:
  assumes "fetchTransactionHistory k a v = Some (Inr (map Some txs), u)"
    and "length (filter reaches_lookup txs) \<le> length (price_responses u)"
  shows "\<exists>w. calculateTotalGasCost k a v =
           Some (Inr (aggregate (processed txs (price_responses u))), w)"
proof -
  have "lastValidPrice initial_totals = last_found []"
    by (simp add: initial_totals_def last_found_snoc)
  from for_loop_processed [OF this assms(2)] obtain w where
    "for_loop (map Some txs) initial_totals u =
           Some (Inr
             \<lparr>totalGasCostWei =
                totalGasCostWei initial_totals
                + wei_sum (processed_after [] (lookups txs (price_responses u))),
              totalGasCostETH =
                foldl fadd (totalGasCostETH initial_totals)
                  (map (\<lambda>(t, x). txCostETH t)
                     (processed_after [] (lookups txs (price_responses u)))),
              totalGasCostUSD =
                foldl fadd (totalGasCostUSD initial_totals)
                  (map (\<lambda>(t, x). fmul (txCostETH t) x)
                     (processed_after [] (lookups txs (price_responses u)))),
              txCosts =
                txCosts initial_totals
                @ map entry_of (processed_after [] (lookups txs (price_responses u))),
              lastValidPrice =
                last_found ([] @ map snd (lookups txs (price_responses u)))\<rparr>, w)"
    by blast
  then have "calculateTotalGasCost k a v =
           Some (Inr (aggregate (processed txs (price_responses u))), w)"
    by (simp add: calculateTotalGasCost_fetched [OF assms(1)] result_of_def aggregate_def
          processed_def initial_totals_def)
  then show ?thesis by blast
qed

lemma for_loop_returns:
  assumes "length (filter reaches_lookup txs) \<le> length (price_responses w)"
  shows "\<exists>s' w'. for_loop (map Some txs) s w = Some (Inr s', w')"
proof -
  have "lastValidPrice s = last_found (case lastValidPrice s of None \<Rightarrow> [] | Some x \<Rightarrow> [Found x])"
    using last_found_snoc(2) [of "[]"] by (simp add: last_found_snoc split: option.splits)
  from for_loop_processed [OF this assms] show ?thesis by blast
qed

lemma sample_fetch:
  "fetchTransactionHistory Before ''0xabc'' (world_of [one_page txs] ps)
   = Some (Inr (map Some txs),
       \<lparr>history_responses = [], price_responses = ps,
        sent = [HistoryRequest \<lparr>address = ''0xabc'', networks = [''eth-mainnet''], limit = 50,
                                data_before = Undefined, data_after = Undefined\<rparr>]\<rparr>)"
  by (cases txs)
     (simp_all add: fetchTransactionHistory_def fetch_loop.simps post_history_def world_of_def
        one_page_def history_request_def NETWORK_def)

text \<open>
  C1, as the code has it. For a transaction that reaches the lookup (its two quantities
  convert, its cost is in the range of \<open>formatEther\<close>, its timestamp is truthy), a hard
  error of the price resolver is thrown inside the \<open>try\<close> block of the loop and caught by
  its \<open>catch\<close>: the transaction is skipped, with the totals, the list of costs and the
  last valid price as they were, and the loop goes on with the next transaction in the
  world the failed lookup left. So the call does not abort: when the run has come to the
  transaction, \<open>calculateTotalGasCost\<close> ends as the loop over the transactions after it
  ends, started from the totals before it; and it returns a result when these are
  transaction objects and the price provider answers each of their lookups, be it with
  another error.
\<close>

theorem price_error_absorbed:
  assumes "truthy (gasUsedValue t)" and "truthy (gasPriceValue t)"
    and "BigInt (gasUsedValue t) = Inr g" and "BigInt (gasPriceValue t) = Inr p"
    and "truthy (blockTimestamp t)"
    and "fetchHistoricalETHPrice (blockTimestamp t) w = Some (Inl e, w')"
    and "- FIXED_LIMIT \<le> g * p" and "g * p < FIXED_LIMIT"
  shows "loop_body (Some t) s w = Some (Inr s, w')
         \<and> for_loop (Some t # ts) s w = for_loop ts s w'
         \<and> (fetchTransactionHistory k a v = Some (Inr (pre @ Some t # post), u)
              \<and> for_loop pre initial_totals u = Some (Inr s, w)
            \<longrightarrow> calculateTotalGasCost k a v =
                  (case for_loop post s w' of
                     None \<Rightarrow> None
                   | Some (Inl e', u') \<Rightarrow> Some (Inl e', u')
                   | Some (Inr s', u') \<Rightarrow> Some (Inr (result_of s'), u'))
                \<and> (post = map Some txs
                       \<and> length (filter reaches_lookup txs) \<le> length (price_responses w')
                     \<longrightarrow> (\<exists>s' u'. for_loop post s w' = Some (Inr s', u')
                             \<and> calculateTotalGasCost k a v = Some (Inr (result_of s'), u'))))"
proof -
  have turn: "loop_body (Some t) s w = Some (Inr s, w')"
    using assms by (simp add: loop_body_try try_block_lookup)
  then have rest: "for_loop (Some t # ts) s w = for_loop ts s w'" for ts
    by simp
  have run: "calculateTotalGasCost k a v =
                  (case for_loop post s w' of
                     None \<Rightarrow> None
                   | Some (Inl e', u') \<Rightarrow> Some (Inl e', u')
                   | Some (Inr s', u') \<Rightarrow> Some (Inr (result_of s'), u'))"
    if "fetchTransactionHistory k a v = Some (Inr (pre @ Some t # post), u)"
      and "for_loop pre initial_totals u = Some (Inr s, w)"
    using that by (simp add: calculateTotalGasCost_fetched for_loop_append turn)
  have returns: "\<exists>s' u'. for_loop post s w' = Some (Inr s', u')
                   \<and> calculateTotalGasCost k a v = Some (Inr (result_of s'), u')"
    if f: "fetchTransactionHistory k a v = Some (Inr (pre @ Some t # post), u)"
      and l: "for_loop pre initial_totals u = Some (Inr s, w)"
      and "post = map Some txs"
      and "length (filter reaches_lookup txs) \<le> length (price_responses w')"
  proof -
    from for_loop_returns [OF that(4), of s] that(3) obtain s' u' where
      "for_loop post s w' = Some (Inr s', u')"
      by blast
    with run [OF f l] show ?thesis by simp
  qed
  from turn rest run returns show ?thesis
    by blast
qed

lemma sample_loop_b:
  "for_loop [Some tx_b] initial_totals
     \<lparr>history_responses = [], price_responses = [price ''2000''],
      sent = [HistoryRequest \<lparr>address = ''0xabc'', networks = [''eth-mainnet''], limit = 50,
                              data_before = Undefined, data_after = Undefined\<rparr>,
              PriceRequest \<lparr>symbol = ''ETH'', startTime = ''2023-11-14T22:13:20.000Z'',
                            endTime = ''2023-11-14T23:13:20.000Z'', interval = ''1h''\<rparr>]\<rparr>
   = Some (Inr \<lparr>totalGasCostWei = 500000000000000000, totalGasCostETH = Fin (1 / 2),
                 totalGasCostUSD = Fin 1000,
                 txCosts = [\<lparr>cost_hash = Str ''0xb'', timestamp = Num (Fin 1700003600000),
                             costETH = Fin (1 / 2), costUSD = Fin 1000\<rparr>],
                 lastValidPrice = Some (Fin 2000)\<rparr>,
           \<lparr>history_responses = [], price_responses = [],
            sent = [HistoryRequest \<lparr>address = ''0xabc'', networks = [''eth-mainnet''], limit = 50,
                                    data_before = Undefined, data_after = Undefined\<rparr>,
                    PriceRequest \<lparr>symbol = ''ETH'', startTime = ''2023-11-14T22:13:20.000Z'',
                                  endTime = ''2023-11-14T23:13:20.000Z'', interval = ''1h''\<rparr>,
                    PriceRequest \<lparr>symbol = ''ETH'', startTime = ''2023-11-14T23:13:20.000Z'',
                                  endTime = ''2023-11-15T00:13:20.000Z'', interval = ''1h''\<rparr>]\<rparr>)"
  by code_simp

lemma sample_result_b:
  "result_of \<lparr>totalGasCostWei = 500000000000000000, totalGasCostETH = Fin (1 / 2),
              totalGasCostUSD = Fin 1000,
              txCosts = [\<lparr>cost_hash = Str ''0xb'', timestamp = Num (Fin 1700003600000),
                          costETH = Fin (1 / 2), costUSD = Fin 1000\<rparr>],
              lastValidPrice = Some (Fin 2000)\<rparr>
   = \<lparr>totalGasCostWei_out = ''500000000000000000'', totalGasCostETH_out = ''0.5'',
      totalGasCostUSD_out = ''1000.00'',
      transactionCosts =
        [\<lparr>cost_hash = Str ''0xb'', timestamp = Num (Fin 1700003600000),
          costETH = Fin (1 / 2), costUSD = Fin 1000\<rparr>]\<rparr>"
  by code_simp

lemma sample_reaches:
  "reaches_lookup tx_a" "reaches_lookup tx_b" "reaches_lookup tx_later" "reaches_lookup tx_big"
  "\<not> reaches_lookup tx_no_gas" "\<not> reaches_lookup tx_zero_gas"
  by code_simp+

text \<open>
  The claim as the specification words it fails: with the first lookup rejected, the call
  still returns a result, built from the second transaction alone.
\<close>

theorem price_error_does_not_abort:
  "calculateTotalGasCost Before ''0xabc''
      (world_of [one_page [tx_a, tx_b]] [Inl network_error, price ''2000''])
   = Some (Inr \<lparr>totalGasCostWei_out = ''500000000000000000'', totalGasCostETH_out = ''0.5'',
                 totalGasCostUSD_out = ''1000.00'',
                 transactionCosts =
                   [\<lparr>cost_hash = Str ''0xb'', timestamp = Num (Fin 1700003600000),
                     costETH = Fin (1 / 2), costUSD = Fin 1000\<rparr>]\<rparr>,
           \<lparr>history_responses = [], price_responses = [],
            sent = [HistoryRequest \<lparr>address = ''0xabc'', networks = [''eth-mainnet''], limit = 50,
                                    data_before = Undefined, data_after = Undefined\<rparr>,
                    PriceRequest \<lparr>symbol = ''ETH'', startTime = ''2023-11-14T22:13:20.000Z'',
                                  endTime = ''2023-11-14T23:13:20.000Z'', interval = ''1h''\<rparr>,
                    PriceRequest \<lparr>symbol = ''ETH'', startTime = ''2023-11-14T23:13:20.000Z'',
                                  endTime = ''2023-11-15T00:13:20.000Z'', interval = ''1h''\<rparr>]\<rparr>)"
  by code_simp

theorem price_error_absorbed_witness:
  "truthy (gasUsedValue tx_a) \<and> truthy (gasPriceValue tx_a) \<and> truthy (blockTimestamp tx_a)
   \<and> BigInt (gasUsedValue tx_a) = Inr 1000000000 \<and> BigInt (gasPriceValue tx_a) = Inr 1000000000
   \<and> fetchTransactionHistory Before ''0xabc''
        (world_of [one_page [tx_a, tx_b]] [Inl network_error, price ''2000''])
       = Some (Inr ([] @ Some tx_a # [Some tx_b]),
           \<lparr>history_responses = [], price_responses = [Inl network_error, price ''2000''],
            sent = [HistoryRequest \<lparr>address = ''0xabc'', networks = [''eth-mainnet''], limit = 50,
                                    data_before = Undefined, data_after = Undefined\<rparr>]\<rparr>)
   \<and> fetchHistoricalETHPrice (blockTimestamp tx_a)
        \<lparr>history_responses = [], price_responses = [Inl network_error, price ''2000''],
         sent = [HistoryRequest \<lparr>address = ''0xabc'', networks = [''eth-mainnet''], limit = 50,
                                 data_before = Undefined, data_after = Undefined\<rparr>]\<rparr>
       = Some (Inl network_error,
           \<lparr>history_responses = [], price_responses = [price ''2000''],
            sent = [HistoryRequest \<lparr>address = ''0xabc'', networks = [''eth-mainnet''], limit = 50,
                                    data_before = Undefined, data_after = Undefined\<rparr>,
                    PriceRequest \<lparr>symbol = ''ETH'', startTime = ''2023-11-14T22:13:20.000Z'',
                                  endTime = ''2023-11-14T23:13:20.000Z'', interval = ''1h''\<rparr>]\<rparr>)
   \<and> loop_body (Some tx_a) initial_totals
        \<lparr>history_responses = [], price_responses = [Inl network_error, price ''2000''],
         sent = [HistoryRequest \<lparr>address = ''0xabc'', networks = [''eth-mainnet''], limit = 50,
                                 data_before = Undefined, data_after = Undefined\<rparr>]\<rparr>
       = Some (Inr initial_totals,
           \<lparr>history_responses = [], price_responses = [price ''2000''],
            sent = [HistoryRequest \<lparr>address = ''0xabc'', networks = [''eth-mainnet''], limit = 50,
                                    data_before = Undefined, data_after = Undefined\<rparr>,
                    PriceRequest \<lparr>symbol = ''ETH'', startTime = ''2023-11-14T22:13:20.000Z'',
                                  endTime = ''2023-11-14T23:13:20.000Z'', interval = ''1h''\<rparr>]\<rparr>)
   \<and> calculateTotalGasCost Before ''0xabc''
        (world_of [one_page [tx_a, tx_b]] [Inl network_error, price ''2000''])
       = Some (Inr \<lparr>totalGasCostWei_out = ''500000000000000000'', totalGasCostETH_out = ''0.5'',
                     totalGasCostUSD_out = ''1000.00'',
                     transactionCosts =
                       [\<lparr>cost_hash = Str ''0xb'', timestamp = Num (Fin 1700003600000),
                         costETH = Fin (1 / 2), costUSD = Fin 1000\<rparr>]\<rparr>,
           \<lparr>history_responses = [], price_responses = [],
            sent = [HistoryRequest \<lparr>address = ''0xabc'', networks = [''eth-mainnet''], limit = 50,
                                    data_before = Undefined, data_after = Undefined\<rparr>,
                    PriceRequest \<lparr>symbol = ''ETH'', startTime = ''2023-11-14T22:13:20.000Z'',
                                  endTime = ''2023-11-14T23:13:20.000Z'', interval = ''1h''\<rparr>,
                    PriceRequest \<lparr>symbol = ''ETH'', startTime = ''2023-11-14T23:13:20.000Z'',
                                  endTime = ''2023-11-15T00:13:20.000Z'', interval = ''1h''\<rparr>]\<rparr>)"
proof -
  let ?h = "HistoryRequest \<lparr>address = ''0xabc'', networks = [''eth-mainnet''], limit = 50,
                            data_before = Undefined, data_after = Undefined\<rparr>"
  let ?ra = "PriceRequest \<lparr>symbol = ''ETH'', startTime = ''2023-11-14T22:13:20.000Z'',
                          endTime = ''2023-11-14T23:13:20.000Z'', interval = ''1h''\<rparr>"
  let ?v = "world_of [one_page [tx_a, tx_b]] [Inl network_error, price ''2000'']"
  let ?u = "\<lparr>history_responses = [], price_responses = [Inl network_error, price ''2000''],
            sent = [?h]\<rparr>"
  let ?w' = "\<lparr>history_responses = [], price_responses = [price ''2000''], sent = [?h, ?ra]\<rparr>"
  have fetched: "fetchTransactionHistory Before ''0xabc'' ?v
      = Some (Inr ([] @ Some tx_a # [Some tx_b]), ?u)"
    using sample_fetch [of "[tx_a, tx_b]" "[Inl network_error, price ''2000'']"] by simp
  have before: "for_loop [] initial_totals ?u = Some (Inr initial_totals, ?u)"
    by simp
  have lookup: "fetchHistoricalETHPrice (blockTimestamp tx_a) ?u = Some (Inl network_error, ?w')"
    by (simp add: sample_tx_a sample_lookup_a sample_outcomes)
  note th = price_error_absorbed [OF sample_tx_a(1,2,4,5,3) lookup sample_range(1,2),
      where s = initial_totals and k = Before and a = "''0xabc''" and v = ?v and u = ?u
        and pre = "[]" and post = "[Some tx_b]"]
  have turn: "loop_body (Some tx_a) initial_totals ?u = Some (Inr initial_totals, ?w')"
    using th [THEN conjunct1] .
  have "calculateTotalGasCost Before ''0xabc'' ?v =
      (case for_loop [Some tx_b] initial_totals ?w' of
         None \<Rightarrow> None
       | Some (Inl e', u') \<Rightarrow> Some (Inl e', u')
       | Some (Inr s', u') \<Rightarrow> Some (Inr (result_of s'), u'))"
    using th [THEN conjunct2, THEN conjunct2] fetched before by blast
  then have run: "calculateTotalGasCost Before ''0xabc'' ?v
       = Some (Inr \<lparr>totalGasCostWei_out = ''500000000000000000'', totalGasCostETH_out = ''0.5'',
                     totalGasCostUSD_out = ''1000.00'',
                     transactionCosts =
                       [\<lparr>cost_hash = Str ''0xb'', timestamp = Num (Fin 1700003600000),
                         costETH = Fin (1 / 2), costUSD = Fin 1000\<rparr>]\<rparr>,
           \<lparr>history_responses = [], price_responses = [],
            sent = [?h, ?ra,
                    PriceRequest \<lparr>symbol = ''ETH'', startTime = ''2023-11-14T23:13:20.000Z'',
                                  endTime = ''2023-11-15T00:13:20.000Z'', interval = ''1h''\<rparr>]\<rparr>)"
    by (simp only: sample_loop_b sample_result_b option.case prod.case sum.case)
  show ?thesis
    by (intro conjI sample_tx_a(1-5) fetched lookup turn run)
qed

section \<open>A lookup that finds no price\<close>

lemma processed_not_found:
  "processed_after [] (L1 @ (t, NotFound) # L2) =
     processed_after [] L1
     @ (case last_found (map snd L1) of None \<Rightarrow> [] | Some x \<Rightarrow> [(t, x)])
     @ processed_after (map snd L1) L2"
proof -
  have "found_prices (map snd L1 @ [NotFound]) = found_prices (map snd L1)"
    by (simp add: found_prices_append found_prices_single)
  then have "processed_after (map snd L1 @ [NotFound]) L2 = processed_after (map snd L1) L2"
    by (rule processed_after_same)
  then show ?thesis
    by (simp add: processed_after_append price_for_def)
qed

lemma for_loop_slot:
  assumes "lastValidPrice s = last_found earlier"
    and "length (filter reaches_lookup txs) \<le> length (price_responses w)"
  shows "\<exists>s' w'. for_loop (map Some txs) s w = Some (Inr s', w')
           \<and> lastValidPrice s' = last_found (earlier @ map snd (lookups txs (price_responses w)))"
  using for_loop_processed [OF assms] by fastforce

text \<open>
  C3. Take a run over fetched transactions in which every lookup is answered, and in it a
  transaction \<open>t\<close> whose lookup returns "not found", with \<open>L1\<close> the lookups made before it
  and \<open>L2\<close> those made after it. The result returned is the result for these processed
  transactions, in order: those of \<open>L1\<close>; then \<open>t\<close> at the last price found in \<open>L1\<close>, if
  there is one, and nothing if there is none; then those of \<open>L2\<close>, each "not found" among
  them priced by what was found in \<open>L1\<close> and after \<open>t\<close>, so the lookup of \<open>t\<close> has left the
  last valid price as it was. With a price \<open>x\<close> found before, the entry of \<open>t\<close> stands in
  \<open>transactionCosts\<close> at its place with the USD cost \<open>costETH * x\<close>; with none, the result
  is the one for the lookups without \<open>t\<close>: the transaction adds to no total and has no
  entry. The last valid price the loop ends with is the last price found by the lookups
  other than that of \<open>t\<close>.
\<close>

theorem not_found_falls_back:
  assumes "fetchTransactionHistory k a v = Some (Inr (map Some txs), u)"
    and "length (filter reaches_lookup txs) \<le> length (price_responses u)"
    and "lookups txs (price_responses u) = L1 @ (t, NotFound) # L2"
  shows "map_option fst (calculateTotalGasCost k a v) =
           Some (Inr (aggregate
             (processed_after [] L1
              @ (case last_found (map snd L1) of None \<Rightarrow> [] | Some x \<Rightarrow> [(t, x)])
              @ processed_after (map snd L1) L2)))
         \<and> (\<forall>x. last_found (map snd L1) = Some x \<longrightarrow>
               (\<exists>r. map_option fst (calculateTotalGasCost k a v) = Some (Inr r)
                  \<and> transactionCosts r =
                      map entry_of (processed_after [] L1)
                      @ \<lparr>cost_hash = hash t, timestamp = blockTimestamp t,
                         costETH = txCostETH t, costUSD = fmul (txCostETH t) x\<rparr>
                      # map entry_of (processed_after (map snd L1) L2)
                  \<and> totalGasCostWei_out r =
                      bigint_toString
                        (wei_sum (processed_after [] L1) + txCostWei t
                         + wei_sum (processed_after (map snd L1) L2))))
         \<and> (last_found (map snd L1) = None \<longrightarrow>
               map_option fst (calculateTotalGasCost k a v) =
                 Some (Inr (aggregate (processed_after [] (L1 @ L2)))))
         \<and> (\<exists>s w. for_loop (map Some txs) initial_totals u = Some (Inr s, w)
                \<and> lastValidPrice s = last_found (map snd (L1 @ L2)))"
proof -
  from calculateTotalGasCost_processed [OF assms(1,2)] obtain w where
    "calculateTotalGasCost k a v = Some (Inr (aggregate (processed txs (price_responses u))), w)"
    by blast
  then have run: "map_option fst (calculateTotalGasCost k a v) =
           Some (Inr (aggregate
             (processed_after [] L1
              @ (case last_found (map snd L1) of None \<Rightarrow> [] | Some x \<Rightarrow> [(t, x)])
              @ processed_after (map snd L1) L2)))"
    by (simp add: processed_def assms(3) processed_not_found)
  have priced: "\<exists>r. map_option fst (calculateTotalGasCost k a v) = Some (Inr r)
                  \<and> transactionCosts r =
                      map entry_of (processed_after [] L1)
                      @ \<lparr>cost_hash = hash t, timestamp = blockTimestamp t,
                         costETH = txCostETH t, costUSD = fmul (txCostETH t) x\<rparr>
                      # map entry_of (processed_after (map snd L1) L2)
                  \<and> totalGasCostWei_out r =
                      bigint_toString
                        (wei_sum (processed_after [] L1) + txCostWei t
                         + wei_sum (processed_after (map snd L1) L2))"
    if "last_found (map snd L1) = Some x" for x
  proof -
    have "map_option fst (calculateTotalGasCost k a v) =
        Some (Inr (aggregate
          (processed_after [] L1 @ [(t, x)] @ processed_after (map snd L1) L2)))"
      using run that by simp
    moreover have "transactionCosts (aggregate
          (processed_after [] L1 @ [(t, x)] @ processed_after (map snd L1) L2)) =
        map entry_of (processed_after [] L1)
        @ \<lparr>cost_hash = hash t, timestamp = blockTimestamp t,
           costETH = txCostETH t, costUSD = fmul (txCostETH t) x\<rparr>
        # map entry_of (processed_after (map snd L1) L2)"
      by (simp add: aggregate_def entry_of_def)
    moreover have "totalGasCostWei_out (aggregate
          (processed_after [] L1 @ [(t, x)] @ processed_after (map snd L1) L2)) =
        bigint_toString
          (wei_sum (processed_after [] L1) + txCostWei t
           + wei_sum (processed_after (map snd L1) L2))"
      by (simp add: aggregate_def wei_sum_def add.assoc)
    ultimately show ?thesis
      by blast
  qed
  have skipped: "map_option fst (calculateTotalGasCost k a v) =
                 Some (Inr (aggregate (processed_after [] (L1 @ L2))))"
    if "last_found (map snd L1) = None"
    using run that by (simp add: processed_after_append)
  have "lastValidPrice initial_totals = last_found []"
    by (simp add: initial_totals_def last_found_snoc)
  from for_loop_slot [OF this assms(2)] obtain s w where
    "for_loop (map Some txs) initial_totals u = Some (Inr s, w)"
    and "lastValidPrice s = last_found ([] @ map snd (lookups txs (price_responses u)))"
    by blast
  moreover have "last_found ([] @ map snd (lookups txs (price_responses u)))
      = last_found (map snd (L1 @ L2))"
    by (simp add: assms(3) last_found_def found_prices_append)
       (simp add: found_prices_def)
  ultimately have slot: "\<exists>s w. for_loop (map Some txs) initial_totals u = Some (Inr s, w)
      \<and> lastValidPrice s = last_found (map snd (L1 @ L2))"
    by auto
  from run priced skipped slot show ?thesis
    by blast
qed

lemma sample_lookups_found:
  "lookups [tx_a, tx_b, tx_later] [price ''2000'', not_found, not_found]
     = [(tx_a, Found (Fin 2000))] @ (tx_b, NotFound) # [(tx_later, NotFound)]"
  by code_simp

lemma sample_lookups_none:
  "lookups [tx_a, tx_b, tx_later] [not_found, not_found, price ''3000'']
     = [(tx_a, NotFound)] @ (tx_b, NotFound) # [(tx_later, Found (Fin 3000))]"
  by code_simp

lemma sample_aggregate_found:
  "aggregate
     (processed_after [] [(tx_a, Found (Fin 2000))]
      @ (case last_found (map snd [(tx_a, Found (Fin 2000))]) of
           None \<Rightarrow> [] | Some x \<Rightarrow> [(tx_b, x)])
      @ processed_after (map snd [(tx_a, Found (Fin 2000))]) [(tx_later, NotFound)])
   = \<lparr>totalGasCostWei_out = ''3500000000000000000'', totalGasCostETH_out = ''3.5'',
      totalGasCostUSD_out = ''7000.00'',
      transactionCosts =
        [\<lparr>cost_hash = Str ''0xa'', timestamp = Str ''1700000000000'',
          costETH = Fin 1, costUSD = Fin 2000\<rparr>,
         \<lparr>cost_hash = Str ''0xb'', timestamp = Num (Fin 1700003600000),
          costETH = Fin (1 / 2), costUSD = Fin 1000\<rparr>,
         \<lparr>cost_hash = Str ''0x10'', timestamp = Num (Fin 1700007200000),
          costETH = Fin 2, costUSD = Fin 4000\<rparr>]\<rparr>"
  by code_simp

lemma sample_aggregate_none:
  "aggregate
     (processed_after [] [(tx_a, NotFound)]
      @ (case last_found (map snd [(tx_a, NotFound)]) of
           None \<Rightarrow> [] | Some x \<Rightarrow> [(tx_b, x)])
      @ processed_after (map snd [(tx_a, NotFound)]) [(tx_later, Found (Fin 3000))])
   = \<lparr>totalGasCostWei_out = ''2000000000000000000'', totalGasCostETH_out = ''2'',
      totalGasCostUSD_out = ''6000.00'',
      transactionCosts =
        [\<lparr>cost_hash = Str ''0x10'', timestamp = Num (Fin 1700007200000),
          costETH = Fin 2, costUSD = Fin 6000\<rparr>]\<rparr>"
  by code_simp

theorem not_found_falls_back_witness:
  "map_option fst (fetchTransactionHistory Before ''0xabc''
       (world_of [one_page [tx_a, tx_b, tx_later]] [price ''2000'', not_found, not_found]))
     = Some (Inr (map Some [tx_a, tx_b, tx_later]))
   \<and> lookups [tx_a, tx_b, tx_later] [price ''2000'', not_found, not_found]
     = [(tx_a, Found (Fin 2000))] @ (tx_b, NotFound) # [(tx_later, NotFound)]
   \<and> last_found (map snd [(tx_a, Found (Fin 2000))]) = Some (Fin 2000)
   \<and> map_option fst (calculateTotalGasCost Before ''0xabc''
       (world_of [one_page [tx_a, tx_b, tx_later]] [price ''2000'', not_found, not_found]))
     = Some (Inr \<lparr>totalGasCostWei_out = ''3500000000000000000'', totalGasCostETH_out = ''3.5'',
                   totalGasCostUSD_out = ''7000.00'',
                   transactionCosts =
                     [\<lparr>cost_hash = Str ''0xa'', timestamp = Str ''1700000000000'',
                       costETH = Fin 1, costUSD = Fin 2000\<rparr>,
                      \<lparr>cost_hash = Str ''0xb'', timestamp = Num (Fin 1700003600000),
                       costETH = Fin (1 / 2), costUSD = Fin 1000\<rparr>,
                      \<lparr>cost_hash = Str ''0x10'', timestamp = Num (Fin 1700007200000),
                       costETH = Fin 2, costUSD = Fin 4000\<rparr>]\<rparr>)
   \<and> lookups [tx_a, tx_b, tx_later] [not_found, not_found, price ''3000'']
     = [(tx_a, NotFound)] @ (tx_b, NotFound) # [(tx_later, Found (Fin 3000))]
   \<and> last_found (map snd [(tx_a, NotFound)]) = None
   \<and> map_option fst (calculateTotalGasCost Before ''0xabc''
       (world_of [one_page [tx_a, tx_b, tx_later]] [not_found, not_found, price ''3000'']))
     = Some (Inr \<lparr>totalGasCostWei_out = ''2000000000000000000'', totalGasCostETH_out = ''2'',
                   totalGasCostUSD_out = ''6000.00'',
                   transactionCosts =
                     [\<lparr>cost_hash = Str ''0x10'', timestamp = Num (Fin 1700007200000),
                       costETH = Fin 2, costUSD = Fin 6000\<rparr>]\<rparr>)"
proof -
  let ?h = "HistoryRequest \<lparr>address = ''0xabc'', networks = [''eth-mainnet''], limit = 50,
                            data_before = Undefined, data_after = Undefined\<rparr>"
  let ?v = "world_of [one_page [tx_a, tx_b, tx_later]] [price ''2000'', not_found, not_found]"
  let ?u = "\<lparr>history_responses = [], price_responses = [price ''2000'', not_found, not_found],
            sent = [?h]\<rparr>"
  let ?v' = "world_of [one_page [tx_a, tx_b, tx_later]] [not_found, not_found, price ''3000'']"
  let ?u' = "\<lparr>history_responses = [], price_responses = [not_found, not_found, price ''3000''],
            sent = [?h]\<rparr>"
  have f: "fetchTransactionHistory Before ''0xabc'' ?v = Some (Inr (map Some [tx_a, tx_b, tx_later]), ?u)"
    by (rule sample_fetch)
  have f': "fetchTransactionHistory Before ''0xabc'' ?v' = Some (Inr (map Some [tx_a, tx_b, tx_later]), ?u')"
    by (rule sample_fetch)
  have n: "length (filter reaches_lookup [tx_a, tx_b, tx_later]) \<le> length (price_responses ?u)"
    and n': "length (filter reaches_lookup [tx_a, tx_b, tx_later]) \<le> length (price_responses ?u')"
    by (simp_all add: sample_reaches)
  have l: "lookups [tx_a, tx_b, tx_later] (price_responses ?u)
      = [(tx_a, Found (Fin 2000))] @ (tx_b, NotFound) # [(tx_later, NotFound)]"
    using sample_lookups_found by simp
  have l': "lookups [tx_a, tx_b, tx_later] (price_responses ?u')
      = [(tx_a, NotFound)] @ (tx_b, NotFound) # [(tx_later, Found (Fin 3000))]"
    using sample_lookups_none by simp
  have found: "map_option fst (calculateTotalGasCost Before ''0xabc'' ?v)
     = Some (Inr \<lparr>totalGasCostWei_out = ''3500000000000000000'', totalGasCostETH_out = ''3.5'',
                   totalGasCostUSD_out = ''7000.00'',
                   transactionCosts =
                     [\<lparr>cost_hash = Str ''0xa'', timestamp = Str ''1700000000000'',
                       costETH = Fin 1, costUSD = Fin 2000\<rparr>,
                      \<lparr>cost_hash = Str ''0xb'', timestamp = Num (Fin 1700003600000),
                       costETH = Fin (1 / 2), costUSD = Fin 1000\<rparr>,
                      \<lparr>cost_hash = Str ''0x10'', timestamp = Num (Fin 1700007200000),
                       costETH = Fin 2, costUSD = Fin 4000\<rparr>]\<rparr>)"
    using not_found_falls_back [OF f n l, THEN conjunct1]
    by (simp only: sample_aggregate_found)
  have none: "map_option fst (calculateTotalGasCost Before ''0xabc'' ?v')
     = Some (Inr \<lparr>totalGasCostWei_out = ''2000000000000000000'', totalGasCostETH_out = ''2'',
                   totalGasCostUSD_out = ''6000.00'',
                   transactionCosts =
                     [\<lparr>cost_hash = Str ''0x10'', timestamp = Num (Fin 1700007200000),
                       costETH = Fin 2, costUSD = Fin 6000\<rparr>]\<rparr>)"
    using not_found_falls_back [OF f' n' l', THEN conjunct1]
    by (simp only: sample_aggregate_none)
  have fetched: "map_option fst (fetchTransactionHistory Before ''0xabc'' ?v)
      = Some (Inr (map Some [tx_a, tx_b, tx_later]))"
    by (simp only: f option.map fst_conv)
  have slot: "last_found (map snd [(tx_a, Found (Fin 2000))]) = Some (Fin 2000)"
    using last_found_snoc(2) [of "[]"] by simp
  have slot': "last_found (map snd [(tx_a, NotFound)]) = None"
    using last_found_snoc(3) [of "[]"] by (simp add: last_found_snoc(1))
  show ?thesis
    by (intro conjI fetched sample_lookups_found slot found sample_lookups_none slot' none)
qed

section \<open>The pages the fetcher follows\<close>

lemma fetch_loop_done: "fetch_loop k a f False c w = Some (Inr f, w)"
  by (simp add: fetch_loop.simps)

lemma fetch_loop_hangs:
  "history_responses w = [] \<Longrightarrow> fetch_loop k a f True c w = None"
  by (simp add: fetch_loop.simps post_history_def)

lemma fetch_loop_rejected:
  "history_responses w = Inl e # rs \<Longrightarrow>
   fetch_loop k a f True c w =
     Some (Inl e, w\<lparr>history_responses := rs,
                     sent := sent w @ [HistoryRequest (history_request k a c)]\<rparr>)"
  by (simp add: fetch_loop.simps post_history_def)

lemma fetch_loop_continues:
  assumes "history_responses w = Inr p # rs" and "continues k p"
  shows "fetch_loop k a f True c w =
           fetch_loop k a (f @ page_txs p) True (page_cursor k p)
             (w\<lparr>history_responses := rs,
                sent := sent w @ [HistoryRequest (history_request k a c)]\<rparr>)"
  using assms
  by (subst fetch_loop.simps)
     (auto simp: post_history_def continues_def page_txs_def split: option.splits)

lemma fetch_loop_last:
  assumes "history_responses w = Inr q # rs" and "\<not> continues k q"
  shows "fetch_loop k a f True c w =
           Some (Inr (f @ page_txs q),
                 w\<lparr>history_responses := rs,
                   sent := sent w @ [HistoryRequest (history_request k a c)]\<rparr>)"
  using assms
  by (subst fetch_loop.simps)
     (auto simp: post_history_def continues_def page_txs_def fetch_loop_done split: option.splits)

lemma fetch_loop_pages:
  assumes "history_responses w = map Inr ps @ rs" and "\<forall>p\<in>set ps. continues k p"
  shows "fetch_loop k a f True c w =
           fetch_loop k a (f @ concat (map page_txs ps)) True (last (c # map (page_cursor k) ps))
             (w\<lparr>history_responses := rs,
                sent := sent w @ map (\<lambda>c. HistoryRequest (history_request k a c))
                                   (butlast (c # map (page_cursor k) ps))\<rparr>)"
  using assms
proof (induction ps arbitrary: f c w)
  case Nil
  then have "w\<lparr>history_responses := rs\<rparr> = w" by auto
  then show ?case by simp
next
  case (Cons p ps)
  let ?w = "w\<lparr>history_responses := map Inr ps @ rs,
               sent := sent w @ [HistoryRequest (history_request k a c)]\<rparr>"
  have "fetch_loop k a f True c w = fetch_loop k a (f @ page_txs p) True (page_cursor k p) ?w"
    using Cons.prems by (intro fetch_loop_continues) simp_all
  also have "\<dots> = fetch_loop k a ((f @ page_txs p) @ concat (map page_txs ps)) True
        (last (page_cursor k p # map (page_cursor k) ps))
        (?w\<lparr>history_responses := rs,
            sent := sent ?w @ map (\<lambda>c. HistoryRequest (history_request k a c))
                                 (butlast (page_cursor k p # map (page_cursor k) ps))\<rparr>)"
    using Cons.prems by (intro Cons.IH) simp_all
  finally show ?case by simp
qed

lemma requests_for_split:
  "requests_for k a ps =
     map (\<lambda>c. HistoryRequest (history_request k a c)) (butlast (Undefined # map (page_cursor k) ps))
     @ [HistoryRequest (history_request k a (last (Undefined # map (page_cursor k) ps)))]"
proof -
  have "Undefined # map (page_cursor k) ps =
      butlast (Undefined # map (page_cursor k) ps) @ [last (Undefined # map (page_cursor k) ps)]"
    by (rule append_butlast_last_id [symmetric]) simp
  then have "map (\<lambda>c. HistoryRequest (history_request k a c)) (Undefined # map (page_cursor k) ps) =
      map (\<lambda>c. HistoryRequest (history_request k a c))
        (butlast (Undefined # map (page_cursor k) ps) @ [last (Undefined # map (page_cursor k) ps)])"
    by (rule arg_cong)
  then show ?thesis
    unfolding requests_for_def by (simp only: map_append list.map)
qed

lemma fetch_pages_then_last:
  assumes "history_responses w = map Inr ps @ Inr q # rest"
    and "\<forall>p\<in>set ps. continues k p" and "\<not> continues k q"
  shows "fetchTransactionHistory k a w =
           Some (Inr (concat (map page_txs (ps @ [q]))),
                 w\<lparr>history_responses := rest, sent := sent w @ requests_for k a ps\<rparr>)"
proof -
  let ?w = "w\<lparr>history_responses := Inr q # rest,
               sent := sent w @ map (\<lambda>c. HistoryRequest (history_request k a c))
                                   (butlast (Undefined # map (page_cursor k) ps))\<rparr>"
  have "fetchTransactionHistory k a w =
      fetch_loop k a ([] @ concat (map page_txs ps)) True (last (Undefined # map (page_cursor k) ps)) ?w"
    unfolding fetchTransactionHistory_def using assms(1,2) by (rule fetch_loop_pages)
  also have "\<dots> = Some (Inr (([] @ concat (map page_txs ps)) @ page_txs q),
      ?w\<lparr>history_responses := rest,
         sent := sent ?w @ [HistoryRequest (history_request k a (last (Undefined # map (page_cursor k) ps)))]\<rparr>)"
    using assms(3) by (intro fetch_loop_last) simp_all
  finally show ?thesis
    by (simp add: requests_for_split)
qed

lemma fetch_pages_then_error:
  assumes "history_responses w = map Inr ps @ Inl e # rest"
    and "\<forall>p\<in>set ps. continues k p"
  shows "fetchTransactionHistory k a w =
           Some (Inl e, w\<lparr>history_responses := rest, sent := sent w @ requests_for k a ps\<rparr>)"
proof -
  let ?w = "w\<lparr>history_responses := Inl e # rest,
               sent := sent w @ map (\<lambda>c. HistoryRequest (history_request k a c))
                                   (butlast (Undefined # map (page_cursor k) ps))\<rparr>"
  have "fetchTransactionHistory k a w =
      fetch_loop k a ([] @ concat (map page_txs ps)) True (last (Undefined # map (page_cursor k) ps)) ?w"
    unfolding fetchTransactionHistory_def using assms(1,2) by (rule fetch_loop_pages)
  also have "\<dots> = Some (Inl e,
      ?w\<lparr>history_responses := rest,
         sent := sent ?w @ [HistoryRequest (history_request k a (last (Undefined # map (page_cursor k) ps)))]\<rparr>)"
    by (intro fetch_loop_rejected) simp_all
  finally show ?thesis
    by (simp add: requests_for_split)
qed

lemma fetch_pages_then_nothing:
  assumes "\<forall>p\<in>set ps. continues k p"
  shows "fetchTransactionHistory k a (w\<lparr>history_responses := map Inr ps\<rparr>) = None"
proof -
  have "fetchTransactionHistory k a (w\<lparr>history_responses := map Inr ps\<rparr>) =
      fetch_loop k a ([] @ concat (map page_txs ps)) True (last (Undefined # map (page_cursor k) ps))
        (w\<lparr>history_responses := map Inr ps\<rparr>
          \<lparr>history_responses := [],
           sent := sent (w\<lparr>history_responses := map Inr ps\<rparr>)
                   @ map (\<lambda>c. HistoryRequest (history_request k a c))
                         (butlast (Undefined # map (page_cursor k) ps))\<rparr>)"
    unfolding fetchTransactionHistory_def using assms by (intro fetch_loop_pages) simp_all
  also have "\<dots> = None"
    by (rule fetch_loop_hangs) simp
  finally show ?thesis .
qed

lemma history_request_fields:
  "limit (history_request k a c) = 50"
  "address (history_request k a c) = a"
  "request_cursor k (history_request k a c) = (if truthy c then c else Undefined)"
  by (cases k; simp add: history_request_def request_cursor_def)+

text \<open>
  C4. Every request asks for at most 50 records and carries the cursor it was built from,
  none for the first. Over answers that start with pages that let the fetcher go on (a
  non-empty list and a truthy cursor) followed by one that does not (no cursor, or a list
  that is empty or missing), the fetcher sends one request for each of these pages, the
  first without a cursor and each later one with the cursor of the page before, stops
  there without using the answers that follow, and returns the records of all the pages
  in order. If the answers end while every page still lets it go on, it does not return.
\<close>

theorem pagination:
  assumes "history_responses w = map Inr ps @ Inr q # rest"
    and "\<forall>p\<in>set ps. continues k p" and "\<not> continues k q"
  shows "fetchTransactionHistory k a w =
           Some (Inr (concat (map page_txs (ps @ [q]))),
                 w\<lparr>history_responses := rest, sent := sent w @ requests_for k a ps\<rparr>)
         \<and> requests_for k a ps =
             map (\<lambda>c. HistoryRequest (history_request k a c)) (Undefined # map (page_cursor k) ps)
         \<and> (\<forall>c. limit (history_request k a c) = 50
                \<and> request_cursor k (history_request k a c) = (if truthy c then c else Undefined))
         \<and> fetchTransactionHistory k a (w\<lparr>history_responses := map Inr ps\<rparr>) = None"
  using assms
  by (simp add: fetch_pages_then_last fetch_pages_then_nothing history_request_fields
        requests_for_def)

lemma numbered_append: "numbered i n @ numbered (i + n) m = numbered i (n + m)"
proof -
  have "[i..<i + (n + m)] = [i..<i + n] @ [i + n..<i + n + m]"
    using upt_add_eq_append [of i "i + n" m] by (simp only: add.assoc le_add1)
  then show ?thesis
    by (simp only: numbered_def map_append)
qed

lemma numbered_facts:
  "length (numbered i n) = n"
  "0 < n \<Longrightarrow> numbered i n \<noteq> []"
  "j < n \<Longrightarrow> numbered i n ! j = Some (tx_a\<lparr>hash := Num (Fin (of_nat (i + j)))\<rparr>)"
  by (simp_all add: numbered_def)

theorem pagination_witness:
  "history_responses (world_of [Inr page1, Inr page2, Inr page3] [])
     = map Inr [page1, page2] @ Inr page3 # []
   \<and> continues Before page1 \<and> continues Before page2 \<and> \<not> continues Before page3
   \<and> fetchTransactionHistory Before ''0xabc'' (world_of [Inr page1, Inr page2, Inr page3] []) =
       Some (Inr (numbered 0 110),
             \<lparr>history_responses = [], price_responses = [],
              sent = [HistoryRequest \<lparr>address = ''0xabc'', networks = [''eth-mainnet''], limit = 50,
                                      data_before = Undefined, data_after = Undefined\<rparr>,
                      HistoryRequest \<lparr>address = ''0xabc'', networks = [''eth-mainnet''], limit = 50,
                                      data_before = Str ''c1'', data_after = Undefined\<rparr>,
                      HistoryRequest \<lparr>address = ''0xabc'', networks = [''eth-mainnet''], limit = 50,
                                      data_before = Str ''c2'', data_after = Undefined\<rparr>]\<rparr>)
   \<and> length (numbered 0 110) = 110
   \<and> fetchTransactionHistory Before ''0xabc'' (world_of [Inr page1, Inr page2] []) = None"
proof -
  let ?w = "world_of [Inr page1, Inr page2, Inr page3] []"
  have h: "history_responses ?w = map Inr [page1, page2] @ Inr page3 # []"
    by (simp add: world_of_def)
  have c: "\<forall>p\<in>set [page1, page2]. continues Before p"
    by (simp add: continues_def page1_def page2_def numbered_facts)
  have l: "\<not> continues Before page3"
    by (simp add: continues_def page3_def)
  have txs: "concat (map page_txs ([page1, page2] @ [page3])) = numbered 0 110"
    using numbered_append [of 50 50 10] numbered_append [of 0 50 60]
    by (simp add: page_txs_def page1_def page2_def page3_def)
  have short: "?w\<lparr>history_responses := map Inr [page1, page2]\<rparr> = world_of [Inr page1, Inr page2] []"
    by (simp add: world_of_def)
  have final: "?w\<lparr>history_responses := [], sent := sent ?w @ requests_for Before ''0xabc'' [page1, page2]\<rparr>
      = \<lparr>history_responses = [], price_responses = [],
              sent = [HistoryRequest \<lparr>address = ''0xabc'', networks = [''eth-mainnet''], limit = 50,
                                      data_before = Undefined, data_after = Undefined\<rparr>,
                      HistoryRequest \<lparr>address = ''0xabc'', networks = [''eth-mainnet''], limit = 50,
                                      data_before = Str ''c1'', data_after = Undefined\<rparr>,
                      HistoryRequest \<lparr>address = ''0xabc'', networks = [''eth-mainnet''], limit = 50,
                                      data_before = Str ''c2'', data_after = Undefined\<rparr>]\<rparr>"
    by (simp add: world_of_def requests_for_def history_request_def NETWORK_def page1_def page2_def)
  note p = pagination [OF h c l, of "''0xabc''"]
  have fetched: "fetchTransactionHistory Before ''0xabc'' ?w = Some (Inr (numbered 0 110),
      \<lparr>history_responses = [], price_responses = [],
              sent = [HistoryRequest \<lparr>address = ''0xabc'', networks = [''eth-mainnet''], limit = 50,
                                      data_before = Undefined, data_after = Undefined\<rparr>,
                      HistoryRequest \<lparr>address = ''0xabc'', networks = [''eth-mainnet''], limit = 50,
                                      data_before = Str ''c1'', data_after = Undefined\<rparr>,
                      HistoryRequest \<lparr>address = ''0xabc'', networks = [''eth-mainnet''], limit = 50,
                                      data_before = Str ''c2'', data_after = Undefined\<rparr>]\<rparr>)"
    using p [THEN conjunct1] unfolding txs final .
  have hangs: "fetchTransactionHistory Before ''0xabc'' (world_of [Inr page1, Inr page2] []) = None"
    using p [THEN conjunct2, THEN conjunct2, THEN conjunct2] unfolding short .
  have c': "continues Before page1 \<and> continues Before page2"
    using c by simp
  show ?thesis
    using h c' l fetched hangs numbered_facts(1) [of 0 110] by blast
qed

text \<open>
  C5. When a page request is rejected, after any number of pages that let the fetcher go
  on, the fetch ends with that error and no list: the records of the pages before it are
  dropped. \<open>calculateTotalGasCost\<close> ends with the same error without a price lookup, and
  the route answers 500 with the message of the error and no result.
\<close>

theorem fetch_error_aborts:
  assumes "history_responses w = map Inr ps @ Inl e # rest"
    and "\<forall>p\<in>set ps. continues k p"
  shows "fetchTransactionHistory k a w =
           Some (Inl e, w\<lparr>history_responses := rest, sent := sent w @ requests_for k a ps\<rparr>)
         \<and> calculateTotalGasCost k a w =
           Some (Inl e, w\<lparr>history_responses := rest, sent := sent w @ requests_for k a ps\<rparr>)
         \<and> GET k (Some (c # a')) w =
           Some (\<lparr>status = 500, body = ErrorBody (message e)\<rparr>,
                 w\<lparr>history_responses := rest, sent := sent w @ requests_for k (c # a') ps\<rparr>)"
  using assms
  by (simp add: fetch_pages_then_error calculateTotalGasCost_def GET_def)

theorem fetch_error_aborts_witness:
  "history_responses (world_of [Inr page1, Inl network_error, Inr page3] [price ''2000''])
     = map Inr [page1] @ Inl network_error # [Inr page3]
   \<and> continues Before page1
   \<and> fetchTransactionHistory Before ''0xabc''
        (world_of [Inr page1, Inl network_error, Inr page3] [price ''2000'']) =
       Some (Inl network_error,
             \<lparr>history_responses = [Inr page3], price_responses = [price ''2000''],
              sent = [HistoryRequest \<lparr>address = ''0xabc'', networks = [''eth-mainnet''], limit = 50,
                                      data_before = Undefined, data_after = Undefined\<rparr>,
                      HistoryRequest \<lparr>address = ''0xabc'', networks = [''eth-mainnet''], limit = 50,
                                      data_before = Str ''c1'', data_after = Undefined\<rparr>]\<rparr>)
   \<and> GET Before (Some ''0xabc'')
        (world_of [Inr page1, Inl network_error, Inr page3] [price ''2000'']) =
       Some (\<lparr>status = 500, body = ErrorBody ''Network Error''\<rparr>,
             \<lparr>history_responses = [Inr page3], price_responses = [price ''2000''],
              sent = [HistoryRequest \<lparr>address = ''0xabc'', networks = [''eth-mainnet''], limit = 50,
                                      data_before = Undefined, data_after = Undefined\<rparr>,
                      HistoryRequest \<lparr>address = ''0xabc'', networks = [''eth-mainnet''], limit = 50,
                                      data_before = Str ''c1'', data_after = Undefined\<rparr>]\<rparr>)"
proof -
  let ?w = "world_of [Inr page1, Inl network_error, Inr page3] [price ''2000'']"
  have h: "history_responses ?w = map Inr [page1] @ Inl network_error # [Inr page3]"
    by (simp add: world_of_def)
  have c: "\<forall>p\<in>set [page1]. continues Before p"
    by (simp add: continues_def page1_def numbered_facts)
  show ?thesis
    using fetch_error_aborts [OF h c, of "''0xabc''" "CHR ''0''" "''xabc''"] h c
    by (simp add: world_of_def requests_for_def history_request_def NETWORK_def page1_def
          network_error_def)
qed

section \<open>The decimal string of a BigInt reads back as the BigInt\<close>

lemma digit_char_value:
  assumes "0 \<le> d" and "d < 10"
  shows "digit_of (digit_char d) = Some d" and "\<not> is_ws (digit_char d)"
    and "digit_char d \<noteq> CHR ''-''" and "digit_char d \<noteq> CHR ''+''"
    and "d \<noteq> 0 \<Longrightarrow> digit_char d \<noteq> CHR ''0''"
proof -
  from assms have "d = 0 \<or> d = 1 \<or> d = 2 \<or> d = 3 \<or> d = 4 \<or> d = 5 \<or> d = 6 \<or> d = 7 \<or> d = 8 \<or> d = 9"
    by presburger
  then show "digit_of (digit_char d) = Some d" and "\<not> is_ws (digit_char d)"
    and "digit_char d \<noteq> CHR ''-''" and "digit_char d \<noteq> CHR ''+''"
    and "d \<noteq> 0 \<Longrightarrow> digit_char d \<noteq> CHR ''0''"
    by (auto simp: digit_char_def digit_of_def is_ws_def)
qed

lemma digits_val_snoc:
  "digits_val b (s @ [c]) = digits_val b s * b + (case digit_of c of Some v \<Rightarrow> v | None \<Rightarrow> 0)"
  by (simp add: digits_val_def)

lemma dec_reads_back:
  "0 \<le> n \<Longrightarrow>
   dec n \<noteq> [] \<and> list_all (digit_in 10) (dec n) \<and> digits_val 10 (dec n) = n
   \<and> (\<forall>c\<in>set (dec n). \<not> is_ws c \<and> c \<noteq> CHR ''-'' \<and> c \<noteq> CHR ''+'')
   \<and> (0 < n \<longrightarrow> hd (dec n) \<noteq> CHR ''0'')"
proof (induction n rule: dec.induct)
  case (1 n)
  show ?case
  proof (cases "n < 10")
    case True
    with "1.prems" show ?thesis
      by (simp add: dec.simps [of n] digit_char_value digit_in_def digits_val_def)
  next
    case False
    then have pos: "0 \<le> n div 10" "0 < n div 10" by simp_all
    have d: "0 \<le> n mod 10" "n mod 10 < 10" by simp_all
    from "1.IH" [OF False pos(1)] pos(2)
    have ih: "dec (n div 10) \<noteq> []" "list_all (digit_in 10) (dec (n div 10))"
      "digits_val 10 (dec (n div 10)) = n div 10"
      "\<forall>c\<in>set (dec (n div 10)). \<not> is_ws c \<and> c \<noteq> CHR ''-'' \<and> c \<noteq> CHR ''+''"
      "hd (dec (n div 10)) \<noteq> CHR ''0''"
      by simp_all
    have "digits_val 10 (dec n) = n div 10 * 10 + n mod 10"
      using False by (simp add: dec.simps [of n] digits_val_snoc ih digit_char_value [OF d])
    then have "digits_val 10 (dec n) = n" by simp
    moreover have "digit_in 10 (digit_char (n mod 10))"
      using d by (simp add: digit_in_def digit_char_value [OF d])
    ultimately show ?thesis
      using False ih digit_char_value [OF d]
      by (simp add: dec.simps [of n])
  qed
qed

lemma trim_plain:
  assumes "s \<noteq> []" and "\<forall>c\<in>set s. \<not> is_ws c"
  shows "trim s = s"
proof -
  obtain c cs where s: "s = c # cs" using assms(1) by (cases s) auto
  then have "dropWhile is_ws s = s" using assms(2) by simp
  moreover obtain d ds where r: "rev s = d # ds" using assms(1) by (cases "rev s") auto
  then have "d \<in> set s" by (metis list.set_intros(1) set_rev)
  with r assms(2) have "dropWhile is_ws (rev s) = rev s" by simp
  ultimately show ?thesis by (simp add: trim_def)
qed

lemma StringToBigInt_dec:
  assumes "0 \<le> n"
  shows "StringToBigInt (dec n) = Some n"
proof -
  note f = dec_reads_back [OF assms]
  from f have t: "trim (dec n) = dec n"
    by (intro trim_plain) auto
  obtain c cs where s: "dec n = c # cs" using f by (cases "dec n") auto
  have pre: "radix_prefix (dec n) = None"
  proof (cases "n = 0")
    case True
    then show ?thesis by (simp add: dec.simps [of 0] radix_prefix_def digit_char_def)
  next
    case False
    with assms f s have "c \<noteq> CHR ''0''" by simp
    then show ?thesis by (simp add: s radix_prefix_def split: list.splits)
  qed
  from f s have "c \<noteq> CHR ''-''" "c \<noteq> CHR ''+''" by auto
  with f pre t s show ?thesis
    by (simp add: StringToBigInt_def parse_radix_def)
qed

lemma bigint_toString_reads_back: "StringToBigInt (bigint_toString n) = Some n"
proof (cases "n < 0")
  case False
  then show ?thesis by (simp add: bigint_toString_def StringToBigInt_dec)
next
  case True
  then have pos: "0 \<le> - n" "0 < - n" by simp_all
  note f = dec_reads_back [OF pos(1)]
  have t: "trim (CHR ''-'' # dec (- n)) = CHR ''-'' # dec (- n)"
    using f by (intro trim_plain) (auto simp: is_ws_def)
  have "radix_prefix (CHR ''-'' # dec (- n)) = None"
    by (simp add: radix_prefix_def split: list.splits)
  with f t True show ?thesis
    by (simp add: bigint_toString_def StringToBigInt_def parse_radix_def)
qed

section \<open>The wei total is an exact sum\<close>

lemma processed_reaches:
  assumes "(t, x) \<in> set (processed txs answers)"
  shows "t \<in> set txs \<and> reaches_lookup t"
proof -
  from assms have "t \<in> fst ` set (lookups txs answers)"
    unfolding processed_def by (rule processed_after_subset)
  with lookups_subset [of txs answers] show ?thesis by auto
qed

lemma reaches_lookup_exact:
  assumes "reaches_lookup t"
  shows "\<exists>g p. BigInt (gasUsedValue t) = Inr g \<and> BigInt (gasPriceValue t) = Inr p
           \<and> txCostWei t = g * p \<and> - FIXED_LIMIT \<le> g * p \<and> g * p < FIXED_LIMIT"
proof -
  from assms obtain g p where
    g: "BigInt (gasUsedValue t) = Inr g" and p: "BigInt (gasPriceValue t) = Inr p"
    and range: "- FIXED_LIMIT \<le> txCostWei t" "txCostWei t < FIXED_LIMIT"
    by (auto simp: reaches_lookup_def succeeds_def split: sum.splits)
  have "txCostWei t = g * p"
    using g p by (rule txCostWei_converted)
  with g p range show ?thesis by simp
qed

lemma BigInt_decimal: "BigInt (Str (bigint_toString g)) = Inr g"
  by (simp add: BigInt.simps bigint_toString_reads_back)

text \<open>
  C2. Take a run over fetched transactions in which every lookup is answered. The call
  returns a result; its \<open>totalGasCostWei\<close> is the decimal rendering of the sum, as an
  integer, of the wei costs of the transactions that were processed, and read back as a
  BigInt it is that sum; \<open>transactionCosts\<close> holds one entry for each processed
  transaction, in order, so a skipped transaction adds nothing. Each processed
  transaction is one of the batch that reached the lookup, and its wei cost is the
  product \<open>g * p\<close> of the two integers its quantities convert to, a product in the range
  \<open>formatEther\<close> takes (a transaction whose product is outside it is skipped). A quantity
  written as the decimal string of an integer, however large, converts to that integer.
\<close>

theorem wei_total_exact:
  assumes "fetchTransactionHistory k a v = Some (Inr (map Some txs), u)"
    and "length (filter reaches_lookup txs) \<le> length (price_responses u)"
  shows "(\<exists>r w. calculateTotalGasCost k a v = Some (Inr r, w)
            \<and> totalGasCostWei_out r
                = bigint_toString (wei_sum (processed txs (price_responses u)))
            \<and> StringToBigInt (totalGasCostWei_out r)
                = Some (wei_sum (processed txs (price_responses u)))
            \<and> transactionCosts r = map entry_of (processed txs (price_responses u)))
         \<and> wei_sum (processed txs (price_responses u))
             = sum_list (map (\<lambda>(t, x). txCostWei t) (processed txs (price_responses u)))
         \<and> (\<forall>(t, x) \<in> set (processed txs (price_responses u)).
               t \<in> set txs \<and> reaches_lookup t
               \<and> (\<exists>g p. BigInt (gasUsedValue t) = Inr g \<and> BigInt (gasPriceValue t) = Inr p
                      \<and> txCostWei t = g * p
                      \<and> - FIXED_LIMIT \<le> g * p \<and> g * p < FIXED_LIMIT))
         \<and> (\<forall>g. BigInt (Str (bigint_toString g)) = Inr g)"
proof -
  from calculateTotalGasCost_processed [OF assms] obtain w where
    run: "calculateTotalGasCost k a v
            = Some (Inr (aggregate (processed txs (price_responses u))), w)"
    by blast
  have "\<exists>r w. calculateTotalGasCost k a v = Some (Inr r, w)
            \<and> totalGasCostWei_out r
                = bigint_toString (wei_sum (processed txs (price_responses u)))
            \<and> StringToBigInt (totalGasCostWei_out r)
                = Some (wei_sum (processed txs (price_responses u)))
            \<and> transactionCosts r = map entry_of (processed txs (price_responses u))"
    by (intro exI [of _ "aggregate (processed txs (price_responses u))"] exI [of _ w])
       (simp add: run aggregate_def bigint_toString_reads_back)
  moreover have "\<forall>(t, x) \<in> set (processed txs (price_responses u)).
               t \<in> set txs \<and> reaches_lookup t
               \<and> (\<exists>g p. BigInt (gasUsedValue t) = Inr g \<and> BigInt (gasPriceValue t) = Inr p
                      \<and> txCostWei t = g * p
                      \<and> - FIXED_LIMIT \<le> g * p \<and> g * p < FIXED_LIMIT)"
    using processed_reaches reaches_lookup_exact by blast
  ultimately show ?thesis
    by (simp add: BigInt_decimal wei_sum_def)
qed

lemma sample_tx_big:
  "BigInt (gasUsedValue tx_big) = Inr 9007199254740993"
  "BigInt (gasPriceValue tx_big) = Inr 9007199254740993"
  "gasUsedValue tx_big = Str ''9007199254740993''"
  "gasPriceValue tx_big = Str ''9007199254740993''"
  by (simp_all add: tx_big_def gasUsedValue_def gasPriceValue_def js_or_def sample_values)

lemma sample_big_string:
  "bigint_toString 9007199254740993 = ''9007199254740993''"
  "StringToBigInt ''81129638414607699710187514626049'' = Some 81129638414607699710187514626049"
  by code_simp+

lemma sample_processed_big:
  "processed [tx_big, tx_no_gas, tx_a] [price ''2000'', price ''2000'']
     = [(tx_big, Fin 2000), (tx_a, Fin 2000)]"
  by code_simp

lemma sample_wei_sum_big:
  "bigint_toString (wei_sum [(tx_big, Fin 2000), (tx_a, Fin 2000)])
     = ''81129638414607699710187514626049''"
  "wei_sum [(tx_big, Fin 2000), (tx_a, Fin 2000)] = 81129638414607699710187514626049"
  "txCostWei tx_big = 81129638414606699710187514626049"
  "txCostWei tx_a = 1000000000000000000"
  by code_simp+

lemma sample_entries_big:
  "map entry_of [(tx_big, Fin 2000), (tx_a, Fin 2000)]
     = [\<lparr>cost_hash = Str ''0xe'', timestamp = Str ''1700000000000'',
          costETH = Fin (5192296858534829 / 64), costUSD = Fin 162259276829213408\<rparr>,
        \<lparr>cost_hash = Str ''0xa'', timestamp = Str ''1700000000000'',
          costETH = Fin 1, costUSD = Fin 2000\<rparr>]"
  by code_simp

theorem wei_total_exact_witness:
  "map_option fst (fetchTransactionHistory Before ''0xabc''
       (world_of [one_page [tx_big, tx_no_gas, tx_a]] [price ''2000'', price ''2000'']))
     = Some (Inr (map Some [tx_big, tx_no_gas, tx_a]))
   \<and> processed [tx_big, tx_no_gas, tx_a] [price ''2000'', price ''2000'']
     = [(tx_big, Fin 2000), (tx_a, Fin 2000)]
   \<and> (\<exists>r w. calculateTotalGasCost Before ''0xabc''
                (world_of [one_page [tx_big, tx_no_gas, tx_a]] [price ''2000'', price ''2000''])
              = Some (Inr r, w)
          \<and> totalGasCostWei_out r = ''81129638414607699710187514626049''
          \<and> StringToBigInt (totalGasCostWei_out r) = Some 81129638414607699710187514626049
          \<and> transactionCosts r
              = [\<lparr>cost_hash = Str ''0xe'', timestamp = Str ''1700000000000'',
                   costETH = Fin (5192296858534829 / 64), costUSD = Fin 162259276829213408\<rparr>,
                 \<lparr>cost_hash = Str ''0xa'', timestamp = Str ''1700000000000'',
                   costETH = Fin 1, costUSD = Fin 2000\<rparr>])
   \<and> BigInt (gasUsedValue tx_big) = Inr 9007199254740993
   \<and> BigInt (gasPriceValue tx_big) = Inr 9007199254740993
   \<and> (2 :: int) ^ 53 < 9007199254740993
   \<and> txCostWei tx_big = 9007199254740993 * 9007199254740993
   \<and> txCostWei tx_big = 81129638414606699710187514626049
   \<and> txCostWei tx_a = 1000000000000000000
   \<and> BigInt (Str (bigint_toString 9007199254740993)) = Inr 9007199254740993"
proof -
  let ?h = "HistoryRequest \<lparr>address = ''0xabc'', networks = [''eth-mainnet''], limit = 50,
                            data_before = Undefined, data_after = Undefined\<rparr>"
  let ?v = "world_of [one_page [tx_big, tx_no_gas, tx_a]] [price ''2000'', price ''2000'']"
  let ?u = "\<lparr>history_responses = [], price_responses = [price ''2000'', price ''2000''],
            sent = [?h]\<rparr>"
  have f: "fetchTransactionHistory Before ''0xabc'' ?v
      = Some (Inr (map Some [tx_big, tx_no_gas, tx_a]), ?u)"
    by (rule sample_fetch)
  have n: "length (filter reaches_lookup [tx_big, tx_no_gas, tx_a]) \<le> length (price_responses ?u)"
    by (simp add: sample_reaches)
  have p: "processed [tx_big, tx_no_gas, tx_a] (price_responses ?u)
      = [(tx_big, Fin 2000), (tx_a, Fin 2000)]"
    using sample_processed_big by simp
  note th = wei_total_exact [OF f n]
  from th [THEN conjunct1] obtain r w where
    run: "calculateTotalGasCost Before ''0xabc'' ?v = Some (Inr r, w)"
    and total: "totalGasCostWei_out r
        = bigint_toString (wei_sum (processed [tx_big, tx_no_gas, tx_a] (price_responses ?u)))"
    and reads: "StringToBigInt (totalGasCostWei_out r)
        = Some (wei_sum (processed [tx_big, tx_no_gas, tx_a] (price_responses ?u)))"
    and entries: "transactionCosts r
        = map entry_of (processed [tx_big, tx_no_gas, tx_a] (price_responses ?u))"
    by blast
  have total': "totalGasCostWei_out r = ''81129638414607699710187514626049''"
    using total unfolding p sample_wei_sum_big(1) .
  have reads': "StringToBigInt (totalGasCostWei_out r) = Some 81129638414607699710187514626049"
    using reads unfolding p sample_wei_sum_big(2) .
  have entries': "transactionCosts r
              = [\<lparr>cost_hash = Str ''0xe'', timestamp = Str ''1700000000000'',
                   costETH = Fin (5192296858534829 / 64), costUSD = Fin 162259276829213408\<rparr>,
                 \<lparr>cost_hash = Str ''0xa'', timestamp = Str ''1700000000000'',
                   costETH = Fin 1, costUSD = Fin 2000\<rparr>]"
    using entries unfolding p sample_entries_big .
  have returned: "\<exists>r w. calculateTotalGasCost Before ''0xabc'' ?v = Some (Inr r, w)
          \<and> totalGasCostWei_out r = ''81129638414607699710187514626049''
          \<and> StringToBigInt (totalGasCostWei_out r) = Some 81129638414607699710187514626049
          \<and> transactionCosts r
              = [\<lparr>cost_hash = Str ''0xe'', timestamp = Str ''1700000000000'',
                   costETH = Fin (5192296858534829 / 64), costUSD = Fin 162259276829213408\<rparr>,
                 \<lparr>cost_hash = Str ''0xa'', timestamp = Str ''1700000000000'',
                   costETH = Fin 1, costUSD = Fin 2000\<rparr>]"
    by (intro exI [of _ r] exI [of _ w] conjI run total' reads' entries')
  have fetched: "map_option fst (fetchTransactionHistory Before ''0xabc'' ?v)
      = Some (Inr (map Some [tx_big, tx_no_gas, tx_a]))"
    by (simp only: f option.map fst_conv)
  have big: "(2 :: int) ^ 53 < 9007199254740993"
    by simp
  have product: "txCostWei tx_big = 9007199254740993 * 9007199254740993"
    using sample_tx_big(1,2) by (rule txCostWei_converted)
  have decimal: "BigInt (Str (bigint_toString 9007199254740993)) = Inr 9007199254740993"
    using th [THEN conjunct2, THEN conjunct2, THEN conjunct2] by (rule spec)
  show ?thesis
    by (intro conjI fetched sample_processed_big returned sample_tx_big(1,2) big product
          sample_wei_sum_big(3,4) decimal)
qed

section \<open>The result depends on the answers alone\<close>

lemma missing_address_400_helper:
  "addr = None \<or> addr = Some [] \<Longrightarrow>
   GET k addr w = Some (\<lparr>status = 400, body = ErrorBody ''Missing address parameter''\<rparr>, w)"
  by (auto simp: GET_def)

lemma agree_return: "same_answers v w \<Longrightarrow> agree (Some (r, v)) (Some (r, w))"
  by (simp add: agree_def)

lemma agree_cases:
  assumes "agree x y"
  obtains "x = None" and "y = None"
  | r v w where "x = Some (r, v)" and "y = Some (r, w)" and "same_answers v w"
  using assms by (auto simp: agree_def split: option.splits)

lemma agree_fst: "agree x y \<Longrightarrow> map_option fst x = map_option fst y"
  by (erule agree_cases) simp_all

lemma post_price_agree:
  "same_answers v w \<Longrightarrow> agree (post_price b v) (post_price b' w)"
  by (auto simp: agree_def same_answers_def post_price_def split: list.splits)

lemma fetch_loop_agree:
  assumes "history_responses v = hs" and "same_answers v w"
  shows "agree (fetch_loop k a f True c v) (fetch_loop k a' f True c' w)"
  using assms
proof (induction hs arbitrary: v w f c c')
  case Nil
  then have "history_responses v = []" and "history_responses w = []"
    by (simp_all add: same_answers_def)
  then show ?case
    by (simp add: fetch_loop_hangs agree_def)
next
  case (Cons r rs)
  then have v: "history_responses v = r # rs" and w: "history_responses w = r # rs"
    and pr: "price_responses v = price_responses w"
    by (simp_all add: same_answers_def)
  let ?v = "v\<lparr>history_responses := rs, sent := sent v @ [HistoryRequest (history_request k a c)]\<rparr>"
  let ?w = "w\<lparr>history_responses := rs, sent := sent w @ [HistoryRequest (history_request k a' c')]\<rparr>"
  have same: "same_answers ?v ?w"
    using pr by (simp add: same_answers_def)
  show ?case
  proof (cases r)
    case (Inl e)
    with v w same show ?thesis
      by (simp add: fetch_loop_rejected agree_return)
  next
    case (Inr p)
    show ?thesis
    proof (cases "continues k p")
      case True
      have "agree (fetch_loop k a (f @ page_txs p) True (page_cursor k p) ?v)
                  (fetch_loop k a' (f @ page_txs p) True (page_cursor k p) ?w)"
        by (rule Cons.IH) (simp_all add: same)
      with v w Inr True show ?thesis
        by (simp add: fetch_loop_continues)
    next
      case False
      with v w Inr same show ?thesis
        by (simp add: fetch_loop_last agree_return)
    qed
  qed
qed

lemma fetchTransactionHistory_agree:
  "same_answers v w \<Longrightarrow> agree (fetchTransactionHistory k a v) (fetchTransactionHistory k a' w)"
  unfolding fetchTransactionHistory_def by (rule fetch_loop_agree) simp_all

lemma fetchHistoricalETHPrice_agree:
  assumes "same_answers v w"
  shows "agree (fetchHistoricalETHPrice ts v) (fetchHistoricalETHPrice ts w)"
proof -
  have "agree (post_price b v) (post_price b w)" for b
    using assms by (rule post_price_agree)
  then have p: "agree (post_price b v) (post_price b w)" for b .
  show ?thesis
  proof (cases "toISOString (TimeClip (ToNumber ts))")
    case (Inl e)
    with assms show ?thesis
      by (simp add: fetchHistoricalETHPrice_def agree_return)
  next
    case start: (Inr a)
    show ?thesis
    proof (cases "toISOString (TimeClip (fadd (ToNumber ts) (Fin 3600000)))")
      case (Inl e)
      with start assms show ?thesis
        by (simp add: fetchHistoricalETHPrice_def agree_return)
    next
      case (Inr b)
      from p [of "\<lparr>symbol = ''ETH'', startTime = a, endTime = b, interval = ''1h''\<rparr>"]
      show ?thesis
        by (cases rule: agree_cases)
           (auto simp: fetchHistoricalETHPrice_def start Inr agree_def
                 split: sum.splits option.splits list.splits)
    qed
  qed
qed

lemma try_block_agree:
  assumes "same_answers v w"
  shows "agree (try_block t gu gp s v) (try_block t gu gp s w)"
proof -
  from fetchHistoricalETHPrice_agree [OF assms, of "blockTimestamp t"]
  show ?thesis
    by (cases rule: agree_cases)
       (use assms in \<open>auto simp: try_block_def Let_def agree_def
                       split: sum.splits option.splits\<close>)
qed

lemma loop_body_agree:
  assumes "same_answers v w"
  shows "agree (loop_body element s v) (loop_body element s w)"
proof (cases element)
  case None
  with assms show ?thesis
    by (simp add: loop_body_def agree_return)
next
  case (Some t)
  from try_block_agree [OF assms, of t "js_or (gasUsed t) (gas t)" "js_or (effectiveGasPrice t) (gasPrice t)" s]
  show ?thesis
    by (cases rule: agree_cases)
       (use assms in \<open>auto simp: Some loop_body_def Let_def agree_def split: sum.splits\<close>)
qed

lemma for_loop_agree:
  "same_answers v w \<Longrightarrow> agree (for_loop txs s v) (for_loop txs s w)"
proof (induction txs arbitrary: s v w)
  case Nil
  then show ?case by (simp add: agree_return)
next
  case (Cons t txs)
  from loop_body_agree [OF Cons.prems, of t s] show ?case
  proof (cases rule: agree_cases)
    case 1
    then show ?thesis by (simp add: agree_def)
  next
    case (2 r v' w')
    show ?thesis
    proof (cases r)
      case (Inl e)
      with 2 show ?thesis by (simp add: agree_return)
    next
      case (Inr s')
      with 2 Cons.IH [OF 2(3), of s'] show ?thesis by simp
    qed
  qed
qed

lemma calculateTotalGasCost_agree:
  assumes "same_answers v w"
  shows "agree (calculateTotalGasCost k a v) (calculateTotalGasCost k a w)"
proof -
  from fetchTransactionHistory_agree [OF assms, of k a a] show ?thesis
  proof (cases rule: agree_cases)
    case 1
    then show ?thesis by (simp add: calculateTotalGasCost_def agree_def)
  next
    case (2 r v' w')
    show ?thesis
    proof (cases r)
      case (Inl e)
      with 2 show ?thesis by (simp add: calculateTotalGasCost_def agree_return)
    next
      case (Inr txs)
      from for_loop_agree [OF 2(3), of txs initial_totals] show ?thesis
        by (cases rule: agree_cases)
           (auto simp: calculateTotalGasCost_def 2 Inr agree_def split: sum.splits)
    qed
  qed
qed

lemma GET_agree:
  assumes "same_answers v w"
  shows "agree (GET k addr v) (GET k addr w)"
proof (cases "addr = None \<or> addr = Some []")
  case True
  with assms show ?thesis
    by (simp add: missing_address_400_helper agree_return)
next
  case False
  then obtain a where a: "addr = Some a" "a \<noteq> []" by auto
  from calculateTotalGasCost_agree [OF assms, of k a] show ?thesis
    by (cases rule: agree_cases)
       (auto simp: GET_def a agree_def split: sum.splits)
qed

text \<open>
  C7. The outcome of the aggregator is a function of the address and of what the two
  providers answer: in two worlds that hold the same answers, whatever was sent before,
  \<open>calculateTotalGasCost\<close> for the same address returns the same result or error, or hangs
  in both, and so does the route. The model has no clock to read.
\<close>

theorem same_answers_same_result:
  assumes "history_responses v = history_responses w"
    and "price_responses v = price_responses w"
  shows "map_option fst (calculateTotalGasCost k a v) = map_option fst (calculateTotalGasCost k a w)
         \<and> map_option fst (GET k addr v) = map_option fst (GET k addr w)"
proof -
  have "same_answers v w"
    using assms by (simp add: same_answers_def)
  then show ?thesis
    by (simp add: agree_fst calculateTotalGasCost_agree GET_agree)
qed

theorem same_answers_same_result_witness:
  "history_responses (world_of [one_page [tx_a]] [price ''2000''])
     = history_responses
         \<lparr>history_responses = [one_page [tx_a]], price_responses = [price ''2000''],
          sent = [PriceRequest \<lparr>symbol = ''ETH'', startTime = ''2023-11-14T22:13:20.000Z'',
                                endTime = ''2023-11-14T23:13:20.000Z'', interval = ''1h''\<rparr>]\<rparr>
   \<and> price_responses (world_of [one_page [tx_a]] [price ''2000''])
     = price_responses
         \<lparr>history_responses = [one_page [tx_a]], price_responses = [price ''2000''],
          sent = [PriceRequest \<lparr>symbol = ''ETH'', startTime = ''2023-11-14T22:13:20.000Z'',
                                endTime = ''2023-11-14T23:13:20.000Z'', interval = ''1h''\<rparr>]\<rparr>
   \<and> map_option fst (calculateTotalGasCost Before ''0xabc'' (world_of [one_page [tx_a]] [price ''2000'']))
     = Some (Inr \<lparr>totalGasCostWei_out = ''1000000000000000000'', totalGasCostETH_out = ''1'',
                   totalGasCostUSD_out = ''2000.00'',
                   transactionCosts =
                     [\<lparr>cost_hash = Str ''0xa'', timestamp = Str ''1700000000000'',
                       costETH = Fin 1, costUSD = Fin 2000\<rparr>]\<rparr>)
   \<and> map_option fst (calculateTotalGasCost Before ''0xabc''
         \<lparr>history_responses = [one_page [tx_a]], price_responses = [price ''2000''],
          sent = [PriceRequest \<lparr>symbol = ''ETH'', startTime = ''2023-11-14T22:13:20.000Z'',
                                endTime = ''2023-11-14T23:13:20.000Z'', interval = ''1h''\<rparr>]\<rparr>)
     = Some (Inr \<lparr>totalGasCostWei_out = ''1000000000000000000'', totalGasCostETH_out = ''1'',
                   totalGasCostUSD_out = ''2000.00'',
                   transactionCosts =
                     [\<lparr>cost_hash = Str ''0xa'', timestamp = Str ''1700000000000'',
                       costETH = Fin 1, costUSD = Fin 2000\<rparr>]\<rparr>)"
proof -
  let ?v = "world_of [one_page [tx_a]] [price ''2000'']"
  let ?w = "\<lparr>history_responses = [one_page [tx_a]], price_responses = [price ''2000''],
          sent = [PriceRequest \<lparr>symbol = ''ETH'', startTime = ''2023-11-14T22:13:20.000Z'',
                                endTime = ''2023-11-14T23:13:20.000Z'', interval = ''1h''\<rparr>]\<rparr>"
  have h: "history_responses ?v = history_responses ?w"
    and p: "price_responses ?v = price_responses ?w"
    by (simp_all add: world_of_def)
  have once: "map_option fst (calculateTotalGasCost Before ''0xabc'' ?v)
     = Some (Inr \<lparr>totalGasCostWei_out = ''1000000000000000000'', totalGasCostETH_out = ''1'',
                   totalGasCostUSD_out = ''2000.00'',
                   transactionCosts =
                     [\<lparr>cost_hash = Str ''0xa'', timestamp = Str ''1700000000000'',
                       costETH = Fin 1, costUSD = Fin 2000\<rparr>]\<rparr>)"
    by code_simp
  have again: "map_option fst (calculateTotalGasCost Before ''0xabc'' ?w)
      = map_option fst (calculateTotalGasCost Before ''0xabc'' ?v)"
    using same_answers_same_result [OF h p, of Before "''0xabc''" None] by simp
  show ?thesis
    by (intro conjI h p once trans [OF again once])
qed

section \<open>The rendering of the USD total\<close>

lemma digit_char_is_digit:
  assumes "0 \<le> d" and "d < 10"
  shows "is_digit (digit_char d)"
proof -
  from assms have "d = 0 \<or> d = 1 \<or> d = 2 \<or> d = 3 \<or> d = 4 \<or> d = 5 \<or> d = 6 \<or> d = 7 \<or> d = 8 \<or> d = 9"
    by presburger
  then show ?thesis
    by (auto simp: digit_char_def is_digit_def)
qed

lemma dec_digits: "0 \<le> n \<Longrightarrow> list_all is_digit (dec n) \<and> dec n \<noteq> []"
proof (induction n rule: dec.induct)
  case (1 n)
  show ?case
  proof (cases "n < 10")
    case True
    with "1.prems" show ?thesis
      by (simp add: dec.simps [of n] digit_char_is_digit)
  next
    case False
    then have "0 \<le> n div 10" by simp
    with "1.IH" False have "list_all is_digit (dec (n div 10))" by simp
    moreover have "is_digit (digit_char (n mod 10))"
      by (rule digit_char_is_digit) simp_all
    ultimately show ?thesis
      using False by (simp add: dec.simps [of n])
  qed
qed

lemma pad_left_digits:
  "list_all is_digit s \<Longrightarrow> list_all is_digit (pad_left k s) \<and> k \<le> length (pad_left k s)"
  by (auto simp: pad_left_def is_digit_def list_all_iff)

lemma two_fraction_digits_split:
  assumes "list_all is_digit m" and "3 \<le> length m" and sg: "sg = ''-'' \<or> sg = []"
  shows "two_fraction_digits (sg @ take (length m - 2) m @ ''.'' @ drop (length m - 2) m)"
proof -
  let ?u = "take (length m - 2) m @ ''.'' @ drop (length m - 2) m"
  have d1: "list_all is_digit (take (length m - 2) m)"
    and d2: "list_all is_digit (drop (length m - 2) m)"
    using assms(1) by (auto simp: list_all_iff dest: in_set_takeD in_set_dropD)
  have u: "unsigned_two_fraction_digits ?u"
    using assms(2) d1 d2 by (simp add: unsigned_two_fraction_digits_def nth_append)
  obtain c cs where m: "m = c # cs"
    using assms(2) by (cases m) auto
  with assms(1) have "is_digit c" by simp
  then have "c \<noteq> CHR ''-''" by (auto simp: is_digit_def)
  moreover have "take 1 ?u = [c]"
    using assms(2) by (simp add: m take_Cons')
  ultimately have ns: "\<not> starts_with ''-'' ?u"
    by (simp add: starts_with_def)
  from sg show ?thesis
  proof
    assume "sg = []"
    with u ns show ?thesis by (simp add: two_fraction_digits_def)
  next
    assume "sg = ''-''"
    with u show ?thesis by (simp add: two_fraction_digits_def starts_with_def)
  qed
qed

lemma toFixed2_finite:
  assumes "\<bar>x\<bar> < 10 ^ 21"
  shows "two_fraction_digits (toFixed2 (Fin x))"
proof -
  let ?m = "pad_left 3 (dec \<lfloor>\<bar>x\<bar> * 100 + 1 / 2\<rfloor>)"
  have "0 \<le> \<lfloor>\<bar>x\<bar> * 100 + 1 / 2\<rfloor>" by simp
  then have "list_all is_digit (dec \<lfloor>\<bar>x\<bar> * 100 + 1 / 2\<rfloor>)"
    using dec_digits by blast
  then have m: "list_all is_digit ?m" "3 \<le> length ?m"
    using pad_left_digits by blast+
  have "toFixed2 (Fin x) =
      (if x < 0 then ''-'' else []) @ take (length ?m - 2) ?m @ ''.'' @ drop (length ?m - 2) ?m"
    using assms by (simp add: toFixed2_def Let_def)
  moreover have "two_fraction_digits
      ((if x < 0 then ''-'' else []) @ take (length ?m - 2) ?m @ ''.'' @ drop (length ?m - 2) ?m)"
    using m by (rule two_fraction_digits_split) simp
  ultimately show ?thesis by simp
qed

lemma toFixed2_ten: "toFixed2 (Fin 10) = ''10.00''"
  by code_simp

text \<open>
  C8, as the code has it. The \<open>totalGasCostUSD\<close> returned is \<open>toFixed(2)\<close> of the USD
  total the loop ends with. It has exactly two fractional digits whenever that total is
  finite and below \<open>10 ^ 21\<close> in magnitude, also when it is an integer (\<open>10\<close> gives
  \<open>10.00\<close>); a total that is \<open>NaN\<close> or infinite gives \<open>NaN\<close>, \<open>Infinity\<close> or \<open>-Infinity\<close>,
  and a finite one of magnitude \<open>10 ^ 21\<close> or more is written as \<open>toString\<close> writes it.
\<close>

theorem usd_total_rendering:
  assumes "calculateTotalGasCost k a w = Some (Inr r, w')"
  shows "\<exists>txs v s. fetchTransactionHistory k a w = Some (Inr txs, v)
           \<and> for_loop txs initial_totals v = Some (Inr s, w')
           \<and> totalGasCostUSD_out r = toFixed2 (totalGasCostUSD s)
           \<and> (\<forall>x. totalGasCostUSD s = Fin x \<and> \<bar>x\<bar> < 10 ^ 21
                  \<longrightarrow> two_fraction_digits (totalGasCostUSD_out r))
           \<and> (totalGasCostUSD s = Fin 10 \<longrightarrow> totalGasCostUSD_out r = ''10.00'')
           \<and> (totalGasCostUSD s = NaN \<longrightarrow> totalGasCostUSD_out r = ''NaN'')
           \<and> (totalGasCostUSD s = PosInf \<longrightarrow> totalGasCostUSD_out r = ''Infinity'')
           \<and> (totalGasCostUSD s = NegInf \<longrightarrow> totalGasCostUSD_out r = ''-Infinity'')
           \<and> (\<forall>x. totalGasCostUSD s = Fin x \<and> 10 ^ 21 \<le> \<bar>x\<bar>
                  \<longrightarrow> totalGasCostUSD_out r
                       = (if x < 0 then ''-'' else []) @ number_toString (Fin \<bar>x\<bar>))"
proof -
  from assms obtain txs v s where
    fetched: "fetchTransactionHistory k a w = Some (Inr txs, v)"
    and looped: "for_loop txs initial_totals v = Some (Inr s, w')"
    and r: "r = result_of s"
    by (auto simp: calculateTotalGasCost_def split: option.splits sum.splits prod.splits)
  have out: "totalGasCostUSD_out r = toFixed2 (totalGasCostUSD s)"
    by (simp add: r result_of_def)
  have "two_fraction_digits (totalGasCostUSD_out r)"
    if "totalGasCostUSD s = Fin x" and "\<bar>x\<bar> < 10 ^ 21" for x
    using that by (simp add: out toFixed2_finite)
  moreover have "totalGasCostUSD_out r = ''10.00''" if "totalGasCostUSD s = Fin 10"
    using that by (simp add: out toFixed2_ten)
  moreover have "totalGasCostUSD_out r = ''NaN''" if "totalGasCostUSD s = NaN"
    using that by (simp add: out toFixed2_def number_toString.simps)
  moreover have "totalGasCostUSD_out r = ''Infinity''" if "totalGasCostUSD s = PosInf"
    using that by (simp add: out toFixed2_def number_toString.simps)
  moreover have "totalGasCostUSD_out r = ''-Infinity''" if "totalGasCostUSD s = NegInf"
    using that by (simp add: out toFixed2_def number_toString.simps)
  moreover have "totalGasCostUSD_out r = (if x < 0 then ''-'' else []) @ number_toString (Fin \<bar>x\<bar>)"
    if "totalGasCostUSD s = Fin x" and "10 ^ 21 \<le> \<bar>x\<bar>" for x
    using that by (simp add: out toFixed2_def Let_def)
  ultimately show ?thesis
    using fetched looped out by blast
qed

text \<open>
  The claim as the specification words it fails for a total of \<open>10 ^ 22\<close> dollars (a gas
  quantity of \<open>10 ^ 31\<close> at one gwei and one dollar per ether), and for a price point whose
  value is no number.
\<close>

theorem usd_total_not_two_digits:
  "map_option fst (calculateTotalGasCost Before ''0xabc'' (world_of [one_page [tx_huge]] [price ''1'']))
     = Some (Inr \<lparr>totalGasCostWei_out = ''10000000000000000000000000000000000000000'',
                   totalGasCostETH_out = ''1e+22'', totalGasCostUSD_out = ''1e+22'',
                   transactionCosts =
                     [\<lparr>cost_hash = Str ''0xf'', timestamp = Str ''1700000000000'',
                       costETH = Fin 10000000000000000000000,
                       costUSD = Fin 10000000000000000000000\<rparr>]\<rparr>)
   \<and> \<not> two_fraction_digits ''1e+22''
   \<and> map_option fst (calculateTotalGasCost Before ''0xabc'' (world_of [one_page [tx_a]] [price ''n/a'']))
     = Some (Inr \<lparr>totalGasCostWei_out = ''1000000000000000000'',
                   totalGasCostETH_out = ''1'', totalGasCostUSD_out = ''NaN'',
                   transactionCosts =
                     [\<lparr>cost_hash = Str ''0xa'', timestamp = Str ''1700000000000'',
                       costETH = Fin 1, costUSD = NaN\<rparr>]\<rparr>)
   \<and> \<not> two_fraction_digits ''NaN''"
  by code_simp

theorem usd_total_rendering_witness:
  "calculateTotalGasCost Before ''0xabc'' (world_of [one_page [tx_a]] [price ''10''])
     = Some (Inr \<lparr>totalGasCostWei_out = ''1000000000000000000'', totalGasCostETH_out = ''1'',
                   totalGasCostUSD_out = ''10.00'',
                   transactionCosts =
                     [\<lparr>cost_hash = Str ''0xa'', timestamp = Str ''1700000000000'',
                       costETH = Fin 1, costUSD = Fin 10\<rparr>]\<rparr>,
             \<lparr>history_responses = [], price_responses = [],
              sent = [HistoryRequest \<lparr>address = ''0xabc'', networks = [''eth-mainnet''], limit = 50,
                                      data_before = Undefined, data_after = Undefined\<rparr>,
                      PriceRequest \<lparr>symbol = ''ETH'', startTime = ''2023-11-14T22:13:20.000Z'',
                                    endTime = ''2023-11-14T23:13:20.000Z'', interval = ''1h''\<rparr>]\<rparr>)
   \<and> two_fraction_digits ''10.00''"
proof -
  let ?w = "world_of [one_page [tx_a]] [price ''10'']"
  let ?r = "\<lparr>totalGasCostWei_out = ''1000000000000000000'', totalGasCostETH_out = ''1'',
                   totalGasCostUSD_out = ''10.00'',
                   transactionCosts =
                     [\<lparr>cost_hash = Str ''0xa'', timestamp = Str ''1700000000000'',
                       costETH = Fin 1, costUSD = Fin 10\<rparr>]\<rparr>"
  let ?v = "\<lparr>history_responses = [], price_responses = [price ''10''],
              sent = [HistoryRequest \<lparr>address = ''0xabc'', networks = [''eth-mainnet''], limit = 50,
                                      data_before = Undefined, data_after = Undefined\<rparr>]\<rparr>"
  let ?w' = "\<lparr>history_responses = [], price_responses = [],
              sent = [HistoryRequest \<lparr>address = ''0xabc'', networks = [''eth-mainnet''], limit = 50,
                                      data_before = Undefined, data_after = Undefined\<rparr>,
                      PriceRequest \<lparr>symbol = ''ETH'', startTime = ''2023-11-14T22:13:20.000Z'',
                                    endTime = ''2023-11-14T23:13:20.000Z'', interval = ''1h''\<rparr>]\<rparr>"
  have run: "calculateTotalGasCost Before ''0xabc'' ?w = Some (Inr ?r, ?w')"
    by code_simp
  have fetched: "fetchTransactionHistory Before ''0xabc'' ?w = Some (Inr [Some tx_a], ?v)"
    by code_simp
  have looped: "for_loop [Some tx_a] initial_totals ?v =
      Some (Inr \<lparr>totalGasCostWei = 1000000000000000000, totalGasCostETH = Fin 1,
                  totalGasCostUSD = Fin 10,
                  txCosts = [\<lparr>cost_hash = Str ''0xa'', timestamp = Str ''1700000000000'',
                              costETH = Fin 1, costUSD = Fin 10\<rparr>],
                  lastValidPrice = Some (Fin 10)\<rparr>, ?w')"
    by code_simp
  from usd_total_rendering [OF run] obtain txs v s where
    f: "fetchTransactionHistory Before ''0xabc'' ?w = Some (Inr txs, v)"
    and l: "for_loop txs initial_totals v = Some (Inr s, ?w')"
    and two: "\<forall>x. totalGasCostUSD s = Fin x \<and> \<bar>x\<bar> < 10 ^ 21
                  \<longrightarrow> two_fraction_digits (totalGasCostUSD_out ?r)"
    by blast
  from f fetched have "txs = [Some tx_a]" and "v = ?v" by simp_all
  with l looped have "totalGasCostUSD s = Fin 10" by simp
  with two have "two_fraction_digits (totalGasCostUSD_out ?r)" by simp
  then have "two_fraction_digits ''10.00''" by simp
  with run show ?thesis by (intro conjI)
qed

section \<open>Transactions that are skipped\<close>

lemma sample_batch:
  "for_loop [Some tx_a, Some tx_b] initial_totals
     \<lparr>history_responses = [], price_responses = [price ''2000'', not_found],
      sent = [HistoryRequest \<lparr>address = ''0xabc'', networks = [''eth-mainnet''], limit = 50,
                              data_before = Undefined, data_after = Undefined\<rparr>]\<rparr>
   = Some (Inr \<lparr>totalGasCostWei = 1500000000000000000, totalGasCostETH = Fin (3 / 2),
            totalGasCostUSD = Fin 3000,
            txCosts = [\<lparr>cost_hash = Str ''0xa'', timestamp = Str ''1700000000000'',
                        costETH = Fin 1, costUSD = Fin 2000\<rparr>,
                       \<lparr>cost_hash = Str ''0xb'', timestamp = Num (Fin 1700003600000),
                        costETH = Fin (1 / 2), costUSD = Fin 1000\<rparr>],
            lastValidPrice = Some (Fin 2000)\<rparr>,
           \<lparr>history_responses = [], price_responses = [],
            sent = [HistoryRequest \<lparr>address = ''0xabc'', networks = [''eth-mainnet''], limit = 50,
                                    data_before = Undefined, data_after = Undefined\<rparr>,
                    PriceRequest \<lparr>symbol = ''ETH'', startTime = ''2023-11-14T22:13:20.000Z'',
                                  endTime = ''2023-11-14T23:13:20.000Z'', interval = ''1h''\<rparr>,
                    PriceRequest \<lparr>symbol = ''ETH'', startTime = ''2023-11-14T23:13:20.000Z'',
                                  endTime = ''2023-11-15T00:13:20.000Z'', interval = ''1h''\<rparr>]\<rparr>)"
  by code_simp

lemma sample_batch_result:
  "result_of \<lparr>totalGasCostWei = 1500000000000000000, totalGasCostETH = Fin (3 / 2),
            totalGasCostUSD = Fin 3000,
            txCosts = [\<lparr>cost_hash = Str ''0xa'', timestamp = Str ''1700000000000'',
                        costETH = Fin 1, costUSD = Fin 2000\<rparr>,
                       \<lparr>cost_hash = Str ''0xb'', timestamp = Num (Fin 1700003600000),
                        costETH = Fin (1 / 2), costUSD = Fin 1000\<rparr>],
            lastValidPrice = Some (Fin 2000)\<rparr>
   = \<lparr>totalGasCostWei_out = ''1500000000000000000'', totalGasCostETH_out = ''1.5'',
      totalGasCostUSD_out = ''3000.00'',
      transactionCosts = [\<lparr>cost_hash = Str ''0xa'', timestamp = Str ''1700000000000'',
                        costETH = Fin 1, costUSD = Fin 2000\<rparr>,
                       \<lparr>cost_hash = Str ''0xb'', timestamp = Num (Fin 1700003600000),
                        costETH = Fin (1 / 2), costUSD = Fin 1000\<rparr>]\<rparr>"
  by code_simp

text \<open>
  C6. A transaction that lacks both \<open>gasUsed\<close> and \<open>gas\<close>, or both \<open>effectiveGasPrice\<close>
  and \<open>gasPrice\<close>, or \<open>blockTimestamp\<close>, is skipped: its turn of the loop leaves the three
  totals, the list of costs, the last valid price and the world as they were, the run
  over a batch that holds it is the run over the batch without it, and so the result
  returned is the one computed from the other transactions.
\<close>

theorem missing_field_skipped:
  assumes "(gasUsed t = Undefined \<and> gas t = Undefined)
           \<or> (effectiveGasPrice t = Undefined \<and> gasPrice t = Undefined)
           \<or> blockTimestamp t = Undefined"
  shows "loop_body (Some t) s w = Some (Inr s, w)
         \<and> for_loop (pre @ Some t # post) s w = for_loop (pre @ post) s w
         \<and> (fetchTransactionHistory k a v = Some (Inr (pre @ Some t # post), v')
              \<longrightarrow> calculateTotalGasCost k a v =
                    (case for_loop (pre @ post) initial_totals v' of
                       None \<Rightarrow> None
                     | Some (Inl e, w') \<Rightarrow> Some (Inl e, w')
                     | Some (Inr s', w') \<Rightarrow> Some (Inr (result_of s'), w')))"
proof -
  have "\<not> truthy (gasUsedValue t) \<or> \<not> truthy (gasPriceValue t) \<or> \<not> truthy (blockTimestamp t)"
    using assms by (auto simp: gasUsedValue_def gasPriceValue_def js_or_def)
  then have "loop_body (Some t) s' w' = Some (Inr s', w')" for s' w'
    by (rule loop_body_falsy)
  then show ?thesis
    by (simp add: for_loop_skip calculateTotalGasCost_fetched)
qed

theorem missing_field_skipped_witness:
  "gasUsed tx_no_gas = Undefined \<and> gas tx_no_gas = Undefined
   \<and> loop_body (Some tx_no_gas) initial_totals (world_of [] [price ''2000'', not_found])
       = Some (Inr initial_totals, world_of [] [price ''2000'', not_found])
   \<and> for_loop ([Some tx_a] @ Some tx_no_gas # [Some tx_b]) initial_totals
         (world_of [] [price ''2000'', not_found])
       = for_loop ([Some tx_a] @ [Some tx_b]) initial_totals
           (world_of [] [price ''2000'', not_found])
   \<and> map_option fst (fetchTransactionHistory Before ''0xabc''
         (world_of [one_page ([tx_a] @ tx_no_gas # [tx_b])] [price ''2000'', not_found]))
       = Some (Inr [Some tx_a, Some tx_no_gas, Some tx_b])
   \<and> map_option fst (calculateTotalGasCost Before ''0xabc''
         (world_of [one_page ([tx_a] @ tx_no_gas # [tx_b])] [price ''2000'', not_found]))
       = Some (Inr \<lparr>totalGasCostWei_out = ''1500000000000000000'', totalGasCostETH_out = ''1.5'',
                     totalGasCostUSD_out = ''3000.00'',
                     transactionCosts =
                       [\<lparr>cost_hash = Str ''0xa'', timestamp = Str ''1700000000000'',
                         costETH = Fin 1, costUSD = Fin 2000\<rparr>,
                        \<lparr>cost_hash = Str ''0xb'', timestamp = Num (Fin 1700003600000),
                         costETH = Fin (1 / 2), costUSD = Fin 1000\<rparr>]\<rparr>)"
proof -
  let ?w = "world_of [] [price ''2000'', not_found]"
  have m: "(gasUsed tx_no_gas = Undefined \<and> gas tx_no_gas = Undefined)
           \<or> (effectiveGasPrice tx_no_gas = Undefined \<and> gasPrice tx_no_gas = Undefined)
           \<or> blockTimestamp tx_no_gas = Undefined"
    by (simp add: tx_no_gas_def)
  note sk = missing_field_skipped [OF m, where pre = "[Some tx_a]" and post = "[Some tx_b]"]
  have f: "fetchTransactionHistory Before ''0xabc''
      (world_of [one_page ([tx_a] @ tx_no_gas # [tx_b])] [price ''2000'', not_found])
    = Some (Inr ([Some tx_a] @ Some tx_no_gas # [Some tx_b]),
       \<lparr>history_responses = [], price_responses = [price ''2000'', not_found],
        sent = [HistoryRequest \<lparr>address = ''0xabc'', networks = [''eth-mainnet''], limit = 50,
                                data_before = Undefined, data_after = Undefined\<rparr>]\<rparr>)"
    using sample_fetch [of "[tx_a] @ tx_no_gas # [tx_b]" "[price ''2000'', not_found]"] by simp
  have "map_option fst (calculateTotalGasCost Before ''0xabc''
         (world_of [one_page ([tx_a] @ tx_no_gas # [tx_b])] [price ''2000'', not_found]))
       = Some (Inr \<lparr>totalGasCostWei_out = ''1500000000000000000'', totalGasCostETH_out = ''1.5'',
                     totalGasCostUSD_out = ''3000.00'',
                     transactionCosts =
                       [\<lparr>cost_hash = Str ''0xa'', timestamp = Str ''1700000000000'',
                         costETH = Fin 1, costUSD = Fin 2000\<rparr>,
                        \<lparr>cost_hash = Str ''0xb'', timestamp = Num (Fin 1700003600000),
                         costETH = Fin (1 / 2), costUSD = Fin 1000\<rparr>]\<rparr>)"
    using sk [THEN conjunct2, THEN conjunct2, rule_format, OF f]
    by (simp only: append.simps sample_batch option.case prod.case sum.case
          sample_batch_result option.map fst_conv)
  moreover have "map_option fst (fetchTransactionHistory Before ''0xabc''
         (world_of [one_page ([tx_a] @ tx_no_gas # [tx_b])] [price ''2000'', not_found]))
       = Some (Inr [Some tx_a, Some tx_no_gas, Some tx_b])"
    using f by simp
  moreover have "loop_body (Some tx_no_gas) initial_totals ?w = Some (Inr initial_totals, ?w)"
    using sk [THEN conjunct1] .
  moreover have "for_loop ([Some tx_a] @ Some tx_no_gas # [Some tx_b]) initial_totals ?w
       = for_loop ([Some tx_a] @ [Some tx_b]) initial_totals ?w"
    using sk [THEN conjunct2, THEN conjunct1] .
  moreover have "gasUsed tx_no_gas = Undefined \<and> gas tx_no_gas = Undefined"
    by (simp add: tx_no_gas_def)
  ultimately show ?thesis by (intro conjI) simp_all
qed

text \<open>
  C10. Presence is truthiness: a transaction behaves as the one with every falsy field
  (\<open>0\<close>, the empty string, \<open>null\<close>, \<open>false\<close>, \<open>NaN\<close>) removed, and when \<open>gasUsed\<close> and
  \<open>gas\<close> are both falsy, or both price fields are, or \<open>blockTimestamp\<close> is, the transaction
  is skipped: nothing is added to the totals or to the list of costs, and the rest of
  the batch is processed, and the result computed, as if it were not there.
\<close>

theorem falsy_field_skipped:
  shows "loop_body (Some (without_falsy t)) s w = loop_body (Some t) s w
         \<and> ((\<not> truthy (gasUsed t) \<and> \<not> truthy (gas t))
              \<or> (\<not> truthy (effectiveGasPrice t) \<and> \<not> truthy (gasPrice t))
              \<or> \<not> truthy (blockTimestamp t)
            \<longrightarrow> loop_body (Some t) s w = Some (Inr s, w)
                \<and> for_loop (pre @ Some t # post) s w = for_loop (pre @ post) s w
                \<and> (fetchTransactionHistory k a v = Some (Inr (pre @ Some t # post), v')
                     \<longrightarrow> calculateTotalGasCost k a v =
                           (case for_loop (pre @ post) initial_totals v' of
                              None \<Rightarrow> None
                            | Some (Inl e, w') \<Rightarrow> Some (Inl e, w')
                            | Some (Inr s', w') \<Rightarrow> Some (Inr (result_of s'), w'))))"
proof (intro conjI impI)
  show "loop_body (Some (without_falsy t)) s w = loop_body (Some t) s w"
    by (simp add: loop_body_without_falsy)
next
  assume "(\<not> truthy (gasUsed t) \<and> \<not> truthy (gas t))
              \<or> (\<not> truthy (effectiveGasPrice t) \<and> \<not> truthy (gasPrice t))
              \<or> \<not> truthy (blockTimestamp t)"
  then have f: "\<not> truthy (gasUsedValue t) \<or> \<not> truthy (gasPriceValue t) \<or> \<not> truthy (blockTimestamp t)"
    by (auto simp: gasUsedValue_def gasPriceValue_def js_or_def)
  then show "loop_body (Some t) s w = Some (Inr s, w)"
    by (rule loop_body_falsy)
  from f have skip: "loop_body (Some t) s' w' = Some (Inr s', w')" for s' w'
    by (rule loop_body_falsy)
  then show "for_loop (pre @ Some t # post) s w = for_loop (pre @ post) s w"
    by (rule for_loop_skip)
  assume "fetchTransactionHistory k a v = Some (Inr (pre @ Some t # post), v')"
  then show "calculateTotalGasCost k a v =
      (case for_loop (pre @ post) initial_totals v' of
         None \<Rightarrow> None
       | Some (Inl e, w') \<Rightarrow> Some (Inl e, w')
       | Some (Inr s', w') \<Rightarrow> Some (Inr (result_of s'), w'))"
    by (simp add: calculateTotalGasCost_fetched for_loop_skip [of "Some t", OF skip])
qed

theorem falsy_field_skipped_witness:
  "\<not> truthy (gasUsed tx_zero_gas) \<and> \<not> truthy (gas tx_zero_gas)
   \<and> gasUsed tx_zero_gas = Num (Fin 0) \<and> gas tx_zero_gas = Str []
   \<and> loop_body (Some tx_zero_gas) initial_totals (world_of [] [price ''2000'', not_found])
       = Some (Inr initial_totals, world_of [] [price ''2000'', not_found])
   \<and> for_loop ([Some tx_a] @ Some tx_zero_gas # [Some tx_b]) initial_totals
         (world_of [] [price ''2000'', not_found])
       = for_loop ([Some tx_a] @ [Some tx_b]) initial_totals
           (world_of [] [price ''2000'', not_found])
   \<and> map_option fst (fetchTransactionHistory Before ''0xabc''
         (world_of [one_page ([tx_a] @ tx_zero_gas # [tx_b])] [price ''2000'', not_found]))
       = Some (Inr [Some tx_a, Some tx_zero_gas, Some tx_b])
   \<and> map_option fst (calculateTotalGasCost Before ''0xabc''
         (world_of [one_page ([tx_a] @ tx_zero_gas # [tx_b])] [price ''2000'', not_found]))
       = Some (Inr \<lparr>totalGasCostWei_out = ''1500000000000000000'', totalGasCostETH_out = ''1.5'',
                     totalGasCostUSD_out = ''3000.00'',
                     transactionCosts =
                       [\<lparr>cost_hash = Str ''0xa'', timestamp = Str ''1700000000000'',
                         costETH = Fin 1, costUSD = Fin 2000\<rparr>,
                        \<lparr>cost_hash = Str ''0xb'', timestamp = Num (Fin 1700003600000),
                         costETH = Fin (1 / 2), costUSD = Fin 1000\<rparr>]\<rparr>)"
proof -
  let ?w = "world_of [] [price ''2000'', not_found]"
  have z: "(\<not> truthy (gasUsed tx_zero_gas) \<and> \<not> truthy (gas tx_zero_gas))
           \<or> (\<not> truthy (effectiveGasPrice tx_zero_gas) \<and> \<not> truthy (gasPrice tx_zero_gas))
           \<or> \<not> truthy (blockTimestamp tx_zero_gas)"
    by (simp add: tx_zero_gas_def)
  note sk = falsy_field_skipped [THEN conjunct2, rule_format, OF z,
      where pre = "[Some tx_a]" and post = "[Some tx_b]"]
  have f: "fetchTransactionHistory Before ''0xabc''
      (world_of [one_page ([tx_a] @ tx_zero_gas # [tx_b])] [price ''2000'', not_found])
    = Some (Inr ([Some tx_a] @ Some tx_zero_gas # [Some tx_b]),
       \<lparr>history_responses = [], price_responses = [price ''2000'', not_found],
        sent = [HistoryRequest \<lparr>address = ''0xabc'', networks = [''eth-mainnet''], limit = 50,
                                data_before = Undefined, data_after = Undefined\<rparr>]\<rparr>)"
    using sample_fetch [of "[tx_a] @ tx_zero_gas # [tx_b]" "[price ''2000'', not_found]"] by simp
  have "map_option fst (calculateTotalGasCost Before ''0xabc''
         (world_of [one_page ([tx_a] @ tx_zero_gas # [tx_b])] [price ''2000'', not_found]))
       = Some (Inr \<lparr>totalGasCostWei_out = ''1500000000000000000'', totalGasCostETH_out = ''1.5'',
                     totalGasCostUSD_out = ''3000.00'',
                     transactionCosts =
                       [\<lparr>cost_hash = Str ''0xa'', timestamp = Str ''1700000000000'',
                         costETH = Fin 1, costUSD = Fin 2000\<rparr>,
                        \<lparr>cost_hash = Str ''0xb'', timestamp = Num (Fin 1700003600000),
                         costETH = Fin (1 / 2), costUSD = Fin 1000\<rparr>]\<rparr>)"
    using sk [THEN conjunct2, THEN conjunct2, rule_format, OF f]
    by (simp only: append.simps sample_batch option.case prod.case sum.case
          sample_batch_result option.map fst_conv)
  moreover have "map_option fst (fetchTransactionHistory Before ''0xabc''
         (world_of [one_page ([tx_a] @ tx_zero_gas # [tx_b])] [price ''2000'', not_found]))
       = Some (Inr [Some tx_a, Some tx_zero_gas, Some tx_b])"
    using f by simp
  moreover have "loop_body (Some tx_zero_gas) initial_totals ?w = Some (Inr initial_totals, ?w)"
    using sk [THEN conjunct1] .
  moreover have "for_loop ([Some tx_a] @ Some tx_zero_gas # [Some tx_b]) initial_totals ?w
       = for_loop ([Some tx_a] @ [Some tx_b]) initial_totals ?w"
    using sk [THEN conjunct2, THEN conjunct1] .
  moreover have "\<not> truthy (gasUsed tx_zero_gas) \<and> \<not> truthy (gas tx_zero_gas)
      \<and> gasUsed tx_zero_gas = Num (Fin 0) \<and> gas tx_zero_gas = Str []"
    by (simp add: tx_zero_gas_def)
  ultimately show ?thesis by (intro conjI) simp_all
qed

end
